theory Spec2Isabelle
  imports Main "HOL-Library.Multiset"
begin

section \<open>Data model\<close>

text \<open>
  The script \<^verbatim>\<open>kms.py\<close> drives an external synthesis executable over a pool of speaker
  files. Everything it does beyond computing values is an effect on its surroundings:
  it reads and changes the filesystem, draws random numbers, launches a process and writes
  log lines. The surroundings are split in two. What the script cannot influence is an
  \<open>env\<close>: the answers of the random generator, the behaviour of the external tool, what the
  operating system permits. What the script changes is a \<open>world\<close>, passed through every
  function and returned updated. An exception is a value \<open>Inl e\<close> of the result.
\<close>

datatype node = Dir | File "string list"

type_synonym filesystem = "string \<rightharpoonup> node"

text \<open>
  \<open>File ls\<close> is a regular file whose \<^verbatim>\<open>readlines()\<close> gives \<open>ls\<close> (each line with its line
  terminator, as Python returns it).
\<close>

datatype error =
    Tool_missing          \<comment> \<open>\<^verbatim>\<open>EnvironmentError\<close> of \<^verbatim>\<open>main\<close>\<close>
  | No_wav_files          \<comment> \<open>\<^verbatim>\<open>ValueError\<close> of \<^verbatim>\<open>main\<close>: empty speaker pool\<close>
  | Text_missing          \<comment> \<open>\<^verbatim>\<open>ValueError\<close> of \<^verbatim>\<open>main\<close>: no text in generate mode\<close>
  | Dict_missing          \<comment> \<open>\<^verbatim>\<open>ValueError\<close> of \<^verbatim>\<open>main\<close>: no dictionary in train mode\<close>
  | Sample_out_of_range   \<comment> \<open>\<^verbatim>\<open>ValueError\<close> of \<^verbatim>\<open>random.sample\<close>: \<open>k\<close> negative or above the population\<close>
  | Empty_range           \<comment> \<open>\<^verbatim>\<open>ValueError\<close> of \<^verbatim>\<open>random.randint\<close>: lower bound above upper bound\<close>
  | File_unreadable       \<comment> \<open>the \<^verbatim>\<open>open\<close> of the dictionary file fails\<close>
  | Fs_error              \<comment> \<open>\<^verbatim>\<open>OSError\<close> of \<^verbatim>\<open>os.makedirs\<close> or \<^verbatim>\<open>os.rename\<close>\<close>

datatype level = INFO | ERROR

text \<open>The log lines of the script, one constructor per \<^verbatim>\<open>logging\<close> call, with its arguments.\<close>

datatype msg =
    Which_tts_flags
  | Tts_not_found
  | Found_and_shuffled nat string
  | Running_tts "string list"
  | Tts_failed int "string list"
  | Moved string string
  | Does_not_exist string
  | Move_failed error
  | Random_text string
  | Random_text_failed error
  | Processing_input string
  | Generated_for_wav string int "string option"
  | Selected_files nat "string list"
  | Generated_for_merged int "string option"

record TTSConfig =
  model_name :: string
  language_idx :: string
  device :: string
  vocoder_name :: "string option"
  speaker_wav :: "string list option"
  use_cuda :: bool
  out_path :: string
  source_wav :: "string option"
  target_wav :: "string option"

datatype run_mode = Train | Generate

text \<open>The namespace \<^verbatim>\<open>argparse\<close> hands to \<^verbatim>\<open>main\<close>; an option without default is optional.\<close>

record args =
  args_input_wav_dir :: string
  args_output_wav_dir :: string
  args_mode :: run_mode
  args_text :: "string option"
  args_dict_file :: "string option"
  args_shots :: int
  args_word_count :: int
  args_min_merge :: int
  args_max_merge :: int
  args_device :: string
  args_model_name :: string
  args_vocoder_name :: "string option"
  args_use_cuda :: bool
  args_source_wav :: "string option"
  args_target_wav :: "string option"

record env =
  seed :: "nat \<Rightarrow> nat"
  uuid_bits :: "nat \<Rightarrow> nat"
  tool :: "string list \<Rightarrow> nat \<Rightarrow> filesystem \<Rightarrow> int \<times> filesystem"
  mkdir_ok :: "filesystem \<Rightarrow> string \<Rightarrow> bool"
  rename_ok :: "filesystem \<Rightarrow> string \<Rightarrow> string \<Rightarrow> bool"
  glob :: "string \<Rightarrow> string list"
  which_tts :: bool

text \<open>
  \<^item> \<open>seed e n\<close> is the \<open>n\<close>-th answer of the random generator, before it is reduced to the
    range asked for;
  \<^item> \<open>uuid_bits e n\<close> is the random material of the \<open>n\<close>-th \<^verbatim>\<open>uuid.uuid4()\<close>;
  \<^item> \<open>tool e argv k f\<close> is the exit code of the \<open>k\<close>-th launched process, run with the
    argument vector \<open>argv\<close> on the filesystem \<open>f\<close>, and the filesystem it leaves;
  \<^item> \<open>mkdir_ok e f d\<close> and \<open>rename_ok e f a b\<close> say whether the operating system lets
    \<^verbatim>\<open>os.makedirs(d)\<close> and \<^verbatim>\<open>os.rename(a, b)\<close> succeed on the filesystem \<open>f\<close>
    (permissions, devices, a destination that is not a directory);
  \<^item> \<open>glob e p\<close> is the result of \<^verbatim>\<open>glob.glob(p)\<close>;
  \<^item> \<open>which_tts e\<close> says whether \<^verbatim>\<open>which tts\<close> exits with code zero.
\<close>

record world =
  fs :: filesystem
  draws :: nat
  uuids :: nat
  spawned :: "string list list"
  logs :: "(level \<times> msg) list"

text \<open>
  \<open>draws\<close> and \<open>uuids\<close> count the random answers and the identifiers consumed so far,
  \<open>spawned\<close> lists the argument vectors of the processes launched so far, oldest first,
  and \<open>logs\<close> the log lines written so far.
\<close>

definition logging :: "level \<Rightarrow> msg \<Rightarrow> world \<Rightarrow> world" where
  "logging l m w = w\<lparr>logs := logs w @ [(l, m)]\<rparr>"

section \<open>The synthesis invoker\<close>

text \<open>
  Python's truth value of an optional string: \<^verbatim>\<open>None\<close> and the empty string are false.
\<close>

fun truthy :: "string option \<Rightarrow> bool" where
  "truthy None = False"
| "truthy (Some s) = (s \<noteq> [])"

text \<open>\<^verbatim>\<open>command.extend([flag, value])\<close> under \<^verbatim>\<open>if value:\<close>.\<close>

fun extend_opt :: "string list \<Rightarrow> string \<Rightarrow> string option \<Rightarrow> string list" where
  "extend_opt command flag None = command"
| "extend_opt command flag (Some v) = (if v \<noteq> [] then command @ [flag, v] else command)"

text \<open>The loop \<^verbatim>\<open>for wav in config.speaker_wav: command.extend(['--speaker_wav', wav])\<close>.\<close>

fun extend_speakers :: "string list \<Rightarrow> string list \<Rightarrow> string list" where
  "extend_speakers command [] = command"
| "extend_speakers command (wav # wavs) = extend_speakers (command @ [''--speaker_wav'', wav]) wavs"

text \<open>
  Lines 45 to 51 of \<^verbatim>\<open>run_tts_command\<close>: the argument vector. The text is wrapped in a pair
  of double quotes by the f-string of line 45.
\<close>

definition build_command :: "TTSConfig \<Rightarrow> string \<Rightarrow> string list" where
  "build_command config txt =
    (let command = [''tts'', ''--model_name'', model_name config,
                    ''--text'', [CHR 0x22] @ txt @ [CHR 0x22],
                    ''--language_idx'', language_idx config,
                    ''--out_path'', out_path config,
                    ''--device'', device config];
         command = extend_opt command ''--vocoder_name'' (vocoder_name config);
         command = (case speaker_wav config of
                      None \<Rightarrow> command
                    | Some wavs \<Rightarrow> extend_speakers command wavs);
         command = (if use_cuda config then command @ [''--use_cuda''] else command);
         command = extend_opt command ''--source_wav'' (source_wav config);
         command = extend_opt command ''--target_wav'' (target_wav config)
     in command)"

text \<open>
  \<^verbatim>\<open>run_tts_command\<close>: log the command, launch it, wait for it. A nonzero exit code raises
  \<^verbatim>\<open>CalledProcessError\<close>, which the function catches itself: it logs the error and returns
  \<^verbatim>\<open>None\<close>. The lines the tool prints are echoed to the console and kept nowhere; they are
  not part of the model. The model covers the runs in which the executable can be
  launched, which \<^verbatim>\<open>main\<close> checks first.
\<close>

definition run_tts_command :: "env \<Rightarrow> TTSConfig \<Rightarrow> string \<Rightarrow> world \<Rightarrow> string option \<times> world" where
  "run_tts_command e config txt w =
    (let command = build_command config txt;
         w = logging INFO (Running_tts command) w;
         (return_code, fs') = tool e command (length (spawned w)) (fs w);
         w = w\<lparr>fs := fs', spawned := spawned w @ [command]\<rparr>
     in if return_code \<noteq> 0
        then (None, logging ERROR (Tts_failed return_code command) w)
        else (Some (out_path config), w))"

section \<open>The random generator\<close>

text \<open>
  The functions of Python's \<^verbatim>\<open>random\<close> module the script calls, over the answers of the
  environment. Every call of \<open>randbelow\<close> consumes one answer.
\<close>

definition randbelow :: "env \<Rightarrow> nat \<Rightarrow> world \<Rightarrow> nat \<times> world" where
  "randbelow e n w = (seed e (draws w) mod n, w\<lparr>draws := Suc (draws w)\<rparr>)"

text \<open>
  \<^verbatim>\<open>random.randint(a, b)\<close>: a value of the closed range, \<^verbatim>\<open>ValueError\<close> when the range is
  empty.
\<close>

definition randint :: "env \<Rightarrow> int \<Rightarrow> int \<Rightarrow> world \<Rightarrow> (error + int) \<times> world" where
  "randint e a b w =
    (if a \<le> b
     then (let (r, w) = randbelow e (nat (b - a + 1)) w in (Inr (a + int r), w))
     else (Inl Empty_range, w))"

text \<open>
  \<^verbatim>\<open>random.shuffle(x)\<close>: for \<open>i\<close> from the last index down to 1, swap \<open>x[i]\<close> with \<open>x[j]\<close>
  for a random \<open>j \<le> i\<close>.
\<close>

fun shuffle_from :: "env \<Rightarrow> nat \<Rightarrow> 'a list \<Rightarrow> world \<Rightarrow> 'a list \<times> world" where
  "shuffle_from e 0 x w = (x, w)"
| "shuffle_from e (Suc k) x w =
    (let i = Suc k;
         (j, w) = randbelow e (i + 1) w;
         x = x[i := x ! j, j := x ! i]
     in shuffle_from e k x w)"

definition shuffle :: "env \<Rightarrow> 'a list \<Rightarrow> world \<Rightarrow> 'a list \<times> world" where
  "shuffle e x w = shuffle_from e (length x - 1) x w"

text \<open>
  \<^verbatim>\<open>random.sample(population, k)\<close>: \<^verbatim>\<open>ValueError\<close> unless \<open>0 \<le> k \<le> len(population)\<close>;
  otherwise \<open>k\<close> times a random element of the pool is taken and its place is filled with
  the pool's last element, so that no position of the population is taken twice.
\<close>

fun sample_loop :: "env \<Rightarrow> nat \<Rightarrow> 'a list \<Rightarrow> world \<Rightarrow> 'a list \<times> world" where
  "sample_loop e 0 pool w = ([], w)"
| "sample_loop e (Suc k) pool w =
    (let (j, w) = randbelow e (length pool) w;
         x = pool ! j;
         pool = butlast (pool[j := last pool]);
         (rest, w) = sample_loop e k pool w
     in (x # rest, w))"

definition sample :: "env \<Rightarrow> 'a list \<Rightarrow> int \<Rightarrow> world \<Rightarrow> (error + 'a list) \<times> world" where
  "sample e population k w =
    (if 0 \<le> k \<and> k \<le> int (length population)
     then (let (result, w) = sample_loop e (nat k) population w in (Inr result, w))
     else (Inl Sample_out_of_range, w))"

section \<open>The speaker pool loader\<close>

text \<open>\<^verbatim>\<open>os.path.join(a, b)\<close> on a POSIX system.\<close>

definition path_join :: "string \<Rightarrow> string \<Rightarrow> string" where
  "path_join a b =
    (if b \<noteq> [] \<and> hd b = CHR ''/'' then b
     else if a = [] \<or> last a = CHR ''/'' then a @ b
     else a @ ''/'' @ b)"

definition get_speaker_wav :: "env \<Rightarrow> string \<Rightarrow> world \<Rightarrow> string list \<times> world" where
  "get_speaker_wav e input_wav_dir w =
    (let wav_files = glob e (path_join input_wav_dir ''*.wav'');
         (wav_files, w) = shuffle e wav_files w;
         w = logging INFO (Found_and_shuffled (length wav_files) input_wav_dir) w
     in (wav_files, w))"

section \<open>The output relocator\<close>

text \<open>
  \<^verbatim>\<open>str(uuid.uuid4())\<close>: 128 random bits with the version and variant bits forced, printed as
  32 hexadecimal digits in groups of 8, 4, 4, 4 and 12 separated by dashes.
\<close>

definition hex_digit :: "nat \<Rightarrow> char" where
  "hex_digit d = ''0123456789abcdef'' ! (d mod 16)"

definition uuid_digits :: "nat \<Rightarrow> nat list" where
  "uuid_digits n =
    (let ds = map (\<lambda>i. (n div 16 ^ (31 - i)) mod 16) [0..<32]
     in ds[12 := 4, 16 := 8 + (ds ! 16) mod 4])"

definition uuid_str :: "nat \<Rightarrow> string" where
  "uuid_str n =
    (let h = map hex_digit (uuid_digits n)
     in take 8 h @ ''-'' @ take 4 (drop 8 h) @ ''-'' @ take 4 (drop 12 h) @ ''-'' @
        take 4 (drop 16 h) @ ''-'' @ drop 20 h)"

definition uuid4 :: "env \<Rightarrow> world \<Rightarrow> string \<times> world" where
  "uuid4 e w = (uuid_str (uuid_bits e (uuids w)), w\<lparr>uuids := Suc (uuids w)\<rparr>)"

definition path_exists :: "world \<Rightarrow> string \<Rightarrow> bool" where
  "path_exists w p = (fs w p \<noteq> None)"

text \<open>
  \<^verbatim>\<open>os.makedirs(d)\<close> fails on an existing path and where the system refuses; paths are not
  split into components, so the parents \<^verbatim>\<open>makedirs\<close> would create are not entered.
  \<^verbatim>\<open>os.rename(a, b)\<close> fails on a missing source and where the system refuses; it replaces
  an existing \<open>b\<close>, and renaming a path to itself changes nothing.
\<close>

definition os_makedirs :: "env \<Rightarrow> string \<Rightarrow> world \<Rightarrow> (error + unit) \<times> world" where
  "os_makedirs e d w =
    (if fs w d \<noteq> None \<or> \<not> mkdir_ok e (fs w) d then (Inl Fs_error, w)
     else (Inr (), w\<lparr>fs := (fs w)(d \<mapsto> Dir)\<rparr>))"

definition os_rename :: "env \<Rightarrow> string \<Rightarrow> string \<Rightarrow> world \<Rightarrow> (error + unit) \<times> world" where
  "os_rename e a b w =
    (if fs w a = None \<or> \<not> rename_ok e (fs w) a b then (Inl Fs_error, w)
     else (Inr (), w\<lparr>fs := ((fs w)(a := None))(b := fs w a)\<rparr>))"

text \<open>The body of the \<^verbatim>\<open>try\<close> of \<^verbatim>\<open>move_output_file\<close>, lines 67 to 76.\<close>

definition move_body :: "env \<Rightarrow> string \<Rightarrow> string \<Rightarrow> world \<Rightarrow> (error + string option) \<times> world" where
  "move_body e output_path output_wav_dir w =
    (case (if \<not> path_exists w output_wav_dir then os_makedirs e output_wav_dir w
           else (Inr (), w)) of
       (Inl x, w) \<Rightarrow> (Inl x, w)
     | (Inr _, w) \<Rightarrow>
         if path_exists w output_path
         then (let (u, w) = uuid4 e w;
                   new_filename = u @ ''.wav'';
                   new_path = path_join output_wav_dir new_filename
               in case os_rename e output_path new_path w of
                    (Inl x, w) \<Rightarrow> (Inl x, w)
                  | (Inr _, w) \<Rightarrow> (Inr (Some new_path), logging INFO (Moved output_path new_path) w))
         else (Inr None, logging ERROR (Does_not_exist output_path) w))"

text \<open>The handler of lines 77 to 79 logs the exception and raises it again.\<close>

definition move_output_file :: "env \<Rightarrow> string \<Rightarrow> string \<Rightarrow> world \<Rightarrow> (error + string option) \<times> world" where
  "move_output_file e output_path output_wav_dir w =
    (case move_body e output_path output_wav_dir w of
       (Inl x, w) \<Rightarrow> (Inl x, logging ERROR (Move_failed x) w)
     | (Inr r, w) \<Rightarrow> (Inr r, w))"

section \<open>The text source\<close>

text \<open>
  \<^verbatim>\<open>str.strip()\<close> removes the white space at both ends; the characters are those below 256
  that \<^verbatim>\<open>str.isspace\<close> accepts.
\<close>

definition is_space :: "char \<Rightarrow> bool" where
  "is_space c = (of_char c \<in> {9, 10, 11, 12, 13, 28, 29, 30, 31, 32, 133, 160 :: nat})"

definition strip :: "string \<Rightarrow> string" where
  "strip s = rev (dropWhile is_space (rev (dropWhile is_space s)))"

text \<open>\<^verbatim>\<open>sep.join(xs)\<close>.\<close>

fun join :: "string \<Rightarrow> string list \<Rightarrow> string" where
  "join sep [] = []"
| "join sep [x] = x"
| "join sep (x # y # ys) = x @ sep @ join sep (y # ys)"

text \<open>
  The body of the \<^verbatim>\<open>try\<close> of \<^verbatim>\<open>generate_random_text\<close>, lines 83 to 87. Opening fails when
  there is no file name or no regular file of that name.
\<close>

definition random_text_body :: "env \<Rightarrow> string option \<Rightarrow> int \<Rightarrow> world \<Rightarrow> (error + string) \<times> world" where
  "random_text_body e word_file word_count w =
    (case (case word_file of None \<Rightarrow> None | Some p \<Rightarrow> fs w p) of
       Some (File words) \<Rightarrow>
         (case sample e words word_count w of
            (Inl x, w) \<Rightarrow> (Inl x, w)
          | (Inr random_words, w) \<Rightarrow>
              (let txt = join '' '' (map strip random_words)
               in (Inr txt, logging INFO (Random_text txt) w)))
     | _ \<Rightarrow> (Inl File_unreadable, w))"

definition generate_random_text :: "env \<Rightarrow> string option \<Rightarrow> int \<Rightarrow> world \<Rightarrow> (error + string) \<times> world" where
  "generate_random_text e word_file word_count w =
    (case random_text_body e word_file word_count w of
       (Inl x, w) \<Rightarrow> (Inl x, logging ERROR (Random_text_failed x) w)
     | (Inr txt, w) \<Rightarrow> (Inr txt, w))"

section \<open>One job and the mode drivers\<close>

definition process_wav_file :: "env \<Rightarrow> TTSConfig \<Rightarrow> string \<Rightarrow> string \<Rightarrow> world \<Rightarrow> (error + string option) \<times> world" where
  "process_wav_file e config txt output_wav_dir w =
    (case run_tts_command e config txt w of
       (Some output_path, w) \<Rightarrow>
         if output_path \<noteq> [] then move_output_file e output_path output_wav_dir w
         else (Inr None, w)
     | (None, w) \<Rightarrow> (Inr None, w))"

text \<open>\<^verbatim>\<open>range(n)\<close>, empty for \<open>n \<le> 0\<close>.\<close>

definition py_range :: "int \<Rightarrow> int list" where
  "py_range n = map int [0..<nat n]"

text \<open>What an f-string prints for an optional string.\<close>

fun fstr :: "string option \<Rightarrow> string" where
  "fstr None = ''None''"
| "fstr (Some s) = s"

text \<open>The inner loop of lines 101 to 103, for the speaker file \<open>wav_file\<close>.\<close>

fun generate_shots :: "env \<Rightarrow> args \<Rightarrow> TTSConfig \<Rightarrow> string \<Rightarrow> int list \<Rightarrow> world \<Rightarrow> (error + unit) \<times> world" where
  "generate_shots e a config wav_file [] w = (Inr (), w)"
| "generate_shots e a config wav_file (i # is) w =
    (case process_wav_file e config (fstr (args_text a)) (args_output_wav_dir a) w of
       (Inl x, w) \<Rightarrow> (Inl x, w)
     | (Inr result, w) \<Rightarrow>
         generate_shots e a config wav_file is
           (logging INFO (Generated_for_wav wav_file (i + 1) result) w))"

text \<open>
  The outer loop of lines 98 to 103. The configuration is one mutable object: the speaker
  list written at line 100 stays, so the loop hands the configuration on.
\<close>

fun generate_speakers :: "env \<Rightarrow> args \<Rightarrow> TTSConfig \<Rightarrow> string list \<Rightarrow> world \<Rightarrow> (error + TTSConfig) \<times> world" where
  "generate_speakers e a config [] w = (Inr config, w)"
| "generate_speakers e a config (wav_file # wavs) w =
    (let w = logging INFO (Processing_input wav_file) w;
         config = config\<lparr>speaker_wav := Some [wav_file]\<rparr>
     in case generate_shots e a config wav_file (py_range (args_shots a)) w of
          (Inl x, w) \<Rightarrow> (Inl x, w)
        | (Inr _, w) \<Rightarrow> generate_speakers e a config wavs w)"

text \<open>The merged-voice loop of lines 104 to 110.\<close>

fun generate_merged :: "env \<Rightarrow> args \<Rightarrow> string list \<Rightarrow> TTSConfig \<Rightarrow> int list \<Rightarrow> world \<Rightarrow> (error + TTSConfig) \<times> world" where
  "generate_merged e a pool config [] w = (Inr config, w)"
| "generate_merged e a pool config (i # is) w =
    (case randint e (args_min_merge a) (args_max_merge a) w of
       (Inl x, w) \<Rightarrow> (Inl x, w)
     | (Inr num_files, w) \<Rightarrow>
         (case sample e pool (min num_files (int (length pool))) w of
            (Inl x, w) \<Rightarrow> (Inl x, w)
          | (Inr selected_wav_files, w) \<Rightarrow>
              (let w = logging INFO (Selected_files (length selected_wav_files) selected_wav_files) w;
                   config = config\<lparr>speaker_wav := Some selected_wav_files\<rparr>
               in case process_wav_file e config (fstr (args_text a)) (args_output_wav_dir a) w of
                    (Inl x, w) \<Rightarrow> (Inl x, w)
                  | (Inr result, w) \<Rightarrow>
                      generate_merged e a pool config is
                        (logging INFO (Generated_for_merged (i + 1) result) w))))"

definition generate_mode :: "env \<Rightarrow> args \<Rightarrow> string list \<Rightarrow> TTSConfig \<Rightarrow> world \<Rightarrow> (error + TTSConfig) \<times> world" where
  "generate_mode e a pool config w =
    (case generate_speakers e a config pool w of
       (Inl x, w) \<Rightarrow> (Inl x, w)
     | (Inr config, w) \<Rightarrow> generate_merged e a pool config (py_range (args_shots a)) w)"

text \<open>The inner loop of lines 115 to 118.\<close>

fun train_shots :: "env \<Rightarrow> args \<Rightarrow> TTSConfig \<Rightarrow> string \<Rightarrow> int list \<Rightarrow> world \<Rightarrow> (error + unit) \<times> world" where
  "train_shots e a config wav_file [] w = (Inr (), w)"
| "train_shots e a config wav_file (i # is) w =
    (case generate_random_text e (args_dict_file a) (args_word_count a) w of
       (Inl x, w) \<Rightarrow> (Inl x, w)
     | (Inr text_input, w) \<Rightarrow>
         (case process_wav_file e config text_input (args_output_wav_dir a) w of
            (Inl x, w) \<Rightarrow> (Inl x, w)
          | (Inr result, w) \<Rightarrow>
              train_shots e a config wav_file is
                (logging INFO (Generated_for_wav wav_file (i + 1) result) w)))"

fun train_mode :: "env \<Rightarrow> args \<Rightarrow> string list \<Rightarrow> TTSConfig \<Rightarrow> world \<Rightarrow> (error + TTSConfig) \<times> world" where
  "train_mode e a [] config w = (Inr config, w)"
| "train_mode e a (wav_file # wavs) config w =
    (let config = config\<lparr>speaker_wav := Some [wav_file]\<rparr>
     in case train_shots e a config wav_file (py_range (args_shots a)) w of
          (Inl x, w) \<Rightarrow> (Inl x, w)
        | (Inr _, w) \<Rightarrow> train_mode e a wavs config w)"

section \<open>The entry point\<close>

definition check_tts_command_exists :: "env \<Rightarrow> world \<Rightarrow> bool \<times> world" where
  "check_tts_command_exists e w =
    (if which_tts e then (True, logging INFO Which_tts_flags w)
     else (False, logging ERROR Tts_not_found w))"

text \<open>The configuration built at line 142 from the parsed options.\<close>

definition make_config :: "args \<Rightarrow> TTSConfig" where
  "make_config a =
    \<lparr>model_name = args_model_name a, language_idx = ''en'', device = args_device a,
     vocoder_name = args_vocoder_name a, speaker_wav = None, use_cuda = args_use_cuda a,
     out_path = ''tts_output.wav'', source_wav = args_source_wav a,
     target_wav = args_target_wav a\<rparr>"

text \<open>\<^verbatim>\<open>main\<close>, after the options are parsed.\<close>

definition main :: "env \<Rightarrow> args \<Rightarrow> world \<Rightarrow> (error + unit) \<times> world" where
  "main e a w =
    (case check_tts_command_exists e w of
       (False, w) \<Rightarrow> (Inl Tool_missing, w)
     | (True, w) \<Rightarrow>
         (let (pool, w) = get_speaker_wav e (args_input_wav_dir a) w
          in if pool = [] then (Inl No_wav_files, w)
             else (let config = make_config a
                   in case args_mode a of
                        Generate \<Rightarrow>
                          if \<not> truthy (args_text a) then (Inl Text_missing, w)
                          else (case generate_mode e a pool config w of
                                  (Inl x, w) \<Rightarrow> (Inl x, w)
                                | (Inr _, w) \<Rightarrow> (Inr (), w))
                      | Train \<Rightarrow>
                          if \<not> truthy (args_dict_file a) then (Inl Dict_missing, w)
                          else (case train_mode e a pool config w of
                                  (Inl x, w) \<Rightarrow> (Inl x, w)
                                | (Inr _, w) \<Rightarrow> (Inr (), w)))))"

section \<open>Concrete inputs\<close>

text \<open>
  An environment in which the tool always succeeds and writes its output file, the system
  refuses nothing, and the random generator answers 0, 1, 2, ...; an empty world; and a
  configuration with two speakers, CUDA, an empty source and a target.
\<close>

definition env0 :: env where
  "env0 = \<lparr>seed = (\<lambda>n. n), uuid_bits = (\<lambda>n. n),
           tool = (\<lambda>argv k f. (0, f(''tts_output.wav'' \<mapsto> File []))),
           mkdir_ok = (\<lambda>f d. True), rename_ok = (\<lambda>f a b. True),
           glob = (\<lambda>p. [''in/a.wav'', ''in/b.wav'', ''in/c.wav'']), which_tts = True\<rparr>"

definition world0 :: world where
  "world0 = \<lparr>fs = Map.empty, draws = 0, uuids = 0, spawned = [], logs = []\<rparr>"

definition config0 :: TTSConfig where
  "config0 = \<lparr>model_name = ''m'', language_idx = ''en'', device = ''cpu'',
     vocoder_name = None, speaker_wav = Some [''a.wav'', ''b.wav''], use_cuda = True,
     out_path = ''tts_output.wav'', source_wav = Some '''', target_wav = Some ''t.wav''\<rparr>"

text \<open>
  Two worlds with a dictionary file: one of three different words, one that holds the
  same word on both of its lines.
\<close>

definition world_dict :: world where
  "world_dict = world0\<lparr>fs := [''dict.txt'' \<mapsto>
     File [''alpha'' @ [CHR 0x0A], ''beta'' @ [CHR 0x0A], ''gamma'' @ [CHR 0x0A]]]\<rparr>"

definition world_dup :: world where
  "world_dup = world0\<lparr>fs := [''dict.txt'' \<mapsto> File [''a'' @ [CHR 0x0A], ''a'' @ [CHR 0x0A]]]\<rparr>"

text \<open>
  The options of a generate run with the defaults of the parser, and of train runs with
  the default 15 words over the three-word dictionary, with two shots and with none.
\<close>

definition args0 :: args where
  "args0 = \<lparr>args_input_wav_dir = ''in'', args_output_wav_dir = ''out'', args_mode = Generate,
     args_text = Some ''hello'', args_dict_file = None, args_shots = 2, args_word_count = 15,
     args_min_merge = 2, args_max_merge = 7, args_device = ''cpu'',
     args_model_name = ''tts_models/multilingual/multi-dataset/xtts_v2'',
     args_vocoder_name = None, args_use_cuda = False, args_source_wav = None,
     args_target_wav = None\<rparr>"

definition args_train :: args where
  "args_train = args0\<lparr>args_mode := Train, args_text := None, args_dict_file := Some ''dict.txt''\<rparr>"

definition args_train_noshots :: args where
  "args_train_noshots = args_train\<lparr>args_shots := 0\<rparr>"




text \<open>An environment in which every run of the tool exits with code 1 and writes nothing.\<close>

definition env_fail :: env where
  "env_fail = env0\<lparr>tool := (\<lambda>argv k f. (1, f))\<rparr>"

text \<open>The options of a train run that asks for two words per job.\<close>

definition args_train2 :: args where
  "args_train2 = args_train\<lparr>args_word_count := 2\<rparr>"


section \<open>The argument vector\<close>

lemma extend_speakers_concat:
  "extend_speakers command wavs = command @ concat (map (\<lambda>wav. [''--speaker_wav'', wav]) wavs)"
  by (induction wavs arbitrary: command) simp_all

lemma extend_opt_append:
  "extend_opt command flag v = command @ (if truthy v then [flag, the v] else [])"
  by (cases v) simp_all

lemma build_command_eq:
  "build_command config txt =
     [''tts'', ''--model_name'', model_name config,
      ''--text'', [CHR 0x22] @ txt @ [CHR 0x22],
      ''--language_idx'', language_idx config,
      ''--out_path'', out_path config,
      ''--device'', device config]
     @ (if truthy (vocoder_name config) then [''--vocoder_name'', the (vocoder_name config)] else [])
     @ concat (map (\<lambda>wav. [''--speaker_wav'', wav])
                 (case speaker_wav config of None \<Rightarrow> [] | Some wavs \<Rightarrow> wavs))
     @ (if use_cuda config then [''--use_cuda''] else [])
     @ (if truthy (source_wav config) then [''--source_wav'', the (source_wav config)] else [])
     @ (if truthy (target_wav config) then [''--target_wav'', the (target_wav config)] else [])"
  unfolding build_command_def Let_def extend_opt_append extend_speakers_concat
  by (simp split: option.split)

lemma spawned_run_tts_command:
  "spawned (snd (run_tts_command e config txt w)) = spawned w @ [build_command config txt]"
  by (simp add: run_tts_command_def Let_def logging_def split: prod.split)

text \<open>
  Claim C3. The one process \<^verbatim>\<open>run_tts_command\<close> launches has an argument vector that
  depends on the configuration and the text only, not on the environment or the world.
  It starts with the program name and the five flags that are always there, each
  followed by its value: model name, text (in double quotes), language code, output
  path, device. Then come, in this order: the vocoder flag and name when the vocoder name
  is set (neither \<^verbatim>\<open>None\<close> nor empty), one speaker flag with its path for every speaker
  path, the CUDA flag when the CUDA field is true, the source flag and path when the
  source is set, the target flag and path when the target is set. Nothing else is in it.
\<close>

theorem run_tts_command_argv:
  "spawned (snd (run_tts_command e config txt w)) = spawned w @
    [[''tts'', ''--model_name'', model_name config,
      ''--text'', [CHR 0x22] @ txt @ [CHR 0x22],
      ''--language_idx'', language_idx config,
      ''--out_path'', out_path config,
      ''--device'', device config]
     @ (if truthy (vocoder_name config) then [''--vocoder_name'', the (vocoder_name config)] else [])
     @ concat (map (\<lambda>wav. [''--speaker_wav'', wav])
                 (case speaker_wav config of None \<Rightarrow> [] | Some wavs \<Rightarrow> wavs))
     @ (if use_cuda config then [''--use_cuda''] else [])
     @ (if truthy (source_wav config) then [''--source_wav'', the (source_wav config)] else [])
     @ (if truthy (target_wav config) then [''--target_wav'', the (target_wav config)] else [])]"
  unfolding spawned_run_tts_command build_command_eq by (rule refl)

theorem run_tts_command_argv_witness:
  "spawned (snd (run_tts_command env0 config0 ''hi'' world0)) =
   [[''tts'', ''--model_name'', ''m'', ''--text'', [CHR 0x22] @ ''hi'' @ [CHR 0x22],
     ''--language_idx'', ''en'', ''--out_path'', ''tts_output.wav'', ''--device'', ''cpu'',
     ''--speaker_wav'', ''a.wav'', ''--speaker_wav'', ''b.wav'', ''--use_cuda'',
     ''--target_wav'', ''t.wav'']]"
  using run_tts_command_argv [of env0 config0 "''hi''" world0]
  by (simp add: config0_def world0_def)

section \<open>The speaker pool\<close>

lemma randbelow_less: "0 < n \<Longrightarrow> fst (randbelow e n w) < n"
  by (simp add: randbelow_def)

lemma randbelow_world: "snd (randbelow e n w) = w\<lparr>draws := Suc (draws w)\<rparr>"
  by (simp add: randbelow_def)

lemma mset_shuffle_from:
  "k < length x \<Longrightarrow> mset (fst (shuffle_from e k x w)) = mset x"
proof (induction k arbitrary: x w)
  case 0
  then show ?case by simp
next
  case (Suc k)
  obtain j w' where r: "randbelow e (Suc k + 1) w = (j, w')"
    by (cases "randbelow e (Suc k + 1) w")
  have "fst (randbelow e (Suc k + 1) w) < Suc k + 1"
    by (rule randbelow_less) simp
  with r have j: "j < length x" using Suc.prems by simp
  let ?x = "x[Suc k := x ! j, j := x ! Suc k]"
  have sw: "mset ?x = mset x"
    using mset_swap [OF j, of "Suc k"] Suc.prems by simp
  have "k < length ?x" using Suc.prems by simp
  then have "mset (fst (shuffle_from e k ?x w')) = mset ?x"
    by (rule Suc.IH)
  with sw r show ?case by (simp add: Let_def)
qed

lemma mset_shuffle: "mset (fst (shuffle e x w)) = mset x"
proof (cases x)
  case Nil
  then show ?thesis by (simp add: shuffle_def)
next
  case (Cons a as)
  then have "length x - 1 < length x" by simp
  then show ?thesis unfolding shuffle_def by (rule mset_shuffle_from)
qed

lemma get_speaker_wav_fst:
  "fst (get_speaker_wav e d w) = fst (shuffle e (glob e (path_join d ''*.wav'')) w)"
  by (simp add: get_speaker_wav_def Let_def split: prod.split)



section \<open>Sampling without replacement\<close>

lemma randbelow_fst: "fst (randbelow e n w) = seed e (draws w) mod n"
  by (simp add: randbelow_def)

lemma pool_step_set:
  assumes "distinct pool" and "j < length pool"
  shows "distinct (butlast (pool[j := last pool]))
         \<and> set (butlast (pool[j := last pool])) = set pool - {pool ! j}"
proof (cases pool rule: rev_cases)
  case Nil
  with assms show ?thesis by simp
next
  case (snoc ys l)
  show ?thesis
  proof (cases "j = length ys")
    case True
    with snoc assms show ?thesis by auto
  next
    case False
    with snoc assms have j: "j < length ys" by simp
    from snoc assms have d: "distinct ys" and l: "l \<notin> set ys" by simp_all
    have b: "butlast (pool[j := last pool]) = ys[j := l]"
      using snoc j by (simp add: list_update_append)
    have s: "set (ys[j := l]) = insert l (set ys - {ys ! j})"
      using d j by (rule set_update_distinct)
    have dd: "distinct (ys[j := l])"
      using d l by (simp add: distinct_list_update)
    have n: "pool ! j = ys ! j" using snoc j by (simp add: nth_append)
    have "ys ! j \<in> set ys" using j by simp
    with l have "ys ! j \<noteq> l" by auto
    with b s dd n snoc l show ?thesis by auto
  qed
qed

lemma sample_loop_distinct:
  "distinct pool \<Longrightarrow> k \<le> length pool \<Longrightarrow>
   distinct (fst (sample_loop e k pool w)) \<and> set (fst (sample_loop e k pool w)) \<subseteq> set pool
   \<and> length (fst (sample_loop e k pool w)) = k"
proof (induction k arbitrary: pool w)
  case 0
  then show ?case by simp
next
  case (Suc k)
  let ?j = "seed e (draws w) mod length pool"
  let ?w = "w\<lparr>draws := Suc (draws w)\<rparr>"
  let ?pool = "butlast (pool[?j := last pool])"
  from Suc.prems have pos: "0 < length pool" by linarith
  then have j: "?j < length pool" by simp
  note st = pool_step_set [OF Suc.prems(1) j]
  have len: "k \<le> length ?pool" using Suc.prems by simp
  note ih = Suc.IH [OF conjunct1 [OF st] len, of ?w]
  have eq: "fst (sample_loop e (Suc k) pool w) = pool ! ?j # fst (sample_loop e k ?pool ?w)"
    by (simp add: randbelow_def Let_def case_prod_beta)
  have mem: "pool ! ?j \<in> set pool" using j by simp
  from ih st mem show ?case unfolding eq by auto
qed

lemma sample_loop_map:
  "k \<le> length pool \<Longrightarrow>
   sample_loop e k (map f pool) w =
     (map f (fst (sample_loop e k pool w)), snd (sample_loop e k pool w))"
proof (induction k arbitrary: pool w)
  case 0
  then show ?case by simp
next
  case (Suc k)
  let ?j = "seed e (draws w) mod length pool"
  let ?w = "w\<lparr>draws := Suc (draws w)\<rparr>"
  let ?pool = "butlast (pool[?j := last pool])"
  from Suc.prems have ne: "pool \<noteq> []" by auto
  then have j: "?j < length pool" by simp
  have len: "k \<le> length ?pool" using Suc.prems by simp
  have m: "butlast ((map f pool)[?j := last (map f pool)]) = map f ?pool"
    using ne by (simp add: last_map map_butlast map_update)
  show ?case
    using Suc.IH [OF len, of ?w] j m
    by (simp add: randbelow_def Let_def case_prod_beta)
qed

lemma sample_loop_world:
  "snd (sample_loop e k pool w) = w\<lparr>draws := draws w + k\<rparr>"
proof (induction k arbitrary: pool w)
  case 0
  then show ?case by simp
next
  case (Suc k)
  show ?case
    by (simp add: randbelow_def Let_def case_prod_beta Suc.IH)
qed

text \<open>
  What \<open>sample_loop\<close> returns is the population read at \<open>k\<close> pairwise different
  positions.
\<close>

lemma sample_loop_positions:
  assumes "k \<le> length population"
  shows "\<exists>ps. fst (sample_loop e k population w) = map ((!) population) ps
              \<and> length ps = k \<and> distinct ps \<and> set ps \<subseteq> {..<length population}"
proof -
  let ?n = "length population"
  let ?ps = "fst (sample_loop e k [0..<?n] w)"
  have k: "k \<le> length [0..<?n]" using assms by simp
  have "sample_loop e k (map ((!) population) [0..<?n]) w =
          (map ((!) population) ?ps, snd (sample_loop e k [0..<?n] w))"
    using k by (rule sample_loop_map)
  then have 1: "fst (sample_loop e k population w) = map ((!) population) ?ps"
    by (simp add: map_nth)
  have "distinct ?ps \<and> set ?ps \<subseteq> set [0..<?n] \<and> length ?ps = k"
    using distinct_upt k by (rule sample_loop_distinct)
  then have 2: "length ?ps = k" and 3: "distinct ?ps" and 4: "set ?ps \<subseteq> {..<?n}"
    by auto
  from 1 2 3 4 show ?thesis by blast
qed

lemma sample_ok:
  "0 \<le> k \<Longrightarrow> k \<le> int (length population) \<Longrightarrow>
   sample e population k w =
     (Inr (fst (sample_loop e (nat k) population w)), w\<lparr>draws := draws w + nat k\<rparr>)"
  using sample_loop_world [of e "nat k" population w]
  by (simp add: sample_def Let_def case_prod_beta)

lemma sample_fail:
  "k < 0 \<or> int (length population) < k \<Longrightarrow> sample e population k w = (Inl Sample_out_of_range, w)"
  by (auto simp add: sample_def)

section \<open>The random text\<close>

lemma generate_random_text_ok:
  assumes "fs w p = Some (File words)" and "0 \<le> n" and "n \<le> int (length words)"
  shows "generate_random_text e (Some p) n w =
           (Inr (join '' '' (map strip (fst (sample_loop e (nat n) words w)))),
            logging INFO (Random_text (join '' '' (map strip (fst (sample_loop e (nat n) words w)))))
              (w\<lparr>draws := draws w + nat n\<rparr>))"
  using assms
  by (simp add: generate_random_text_def random_text_body_def sample_ok Let_def)

lemma generate_random_text_too_many:
  assumes "fs w p = Some (File words)" and "int (length words) < n"
  shows "generate_random_text e (Some p) n w =
           (Inl Sample_out_of_range, logging ERROR (Random_text_failed Sample_out_of_range) w)"
  using assms
  by (simp add: generate_random_text_def random_text_body_def sample_fail)

text \<open>
  Claim C4, amended. Let the dictionary file have the lines \<open>words\<close> and let
  \<open>0 \<le> n \<le> length words\<close>. Then \<^verbatim>\<open>generate_random_text\<close> returns the tokens \<open>toks\<close> joined by
  single spaces, in the order they were drawn, where \<open>toks\<close> has exactly \<open>n\<close> elements and
  each is a line of the file without the white space around it. The tokens are read at
  pairwise different line positions \<open>ps\<close>: no line is used twice. When the stripped lines
  of the file are pairwise different, so are the tokens; when the file repeats a word, the
  text can repeat it.
\<close>

theorem generate_random_text_tokens:
  assumes "fs w p = Some (File words)" and "0 \<le> n" and "n \<le> int (length words)"
  shows "\<exists>ps toks. fst (generate_random_text e (Some p) n w) = Inr (join '' '' toks)
           \<and> toks = map (\<lambda>i. strip (words ! i)) ps
           \<and> length toks = nat n
           \<and> set toks \<subseteq> strip ` set words
           \<and> distinct ps \<and> set ps \<subseteq> {..<length words}
           \<and> (distinct (map strip words) \<longrightarrow> distinct toks)"
proof -
  have k: "nat n \<le> length words" using assms by simp
  from sample_loop_positions [OF k, of e w]
  obtain ps where s: "fst (sample_loop e (nat n) words w) = map ((!) words) ps"
    and l: "length ps = nat n" and d: "distinct ps" and r: "set ps \<subseteq> {..<length words}"
    by blast
  let ?toks = "map (\<lambda>i. strip (words ! i)) ps"
  have 1: "fst (generate_random_text e (Some p) n w) = Inr (join '' '' ?toks)"
    using generate_random_text_ok [OF assms, of e] s by (simp add: comp_def)
  have 2: "set ?toks \<subseteq> strip ` set words"
    using r by auto
  have 3: "distinct ?toks" if dw: "distinct (map strip words)"
  proof -
    have "inj_on (\<lambda>i. strip (words ! i)) (set ps)"
    proof (rule inj_onI)
      fix i j
      assume i: "i \<in> set ps" and j: "j \<in> set ps"
        and eq: "strip (words ! i) = strip (words ! j)"
      from i j r have il: "i < length (map strip words)" and jl: "j < length (map strip words)"
        by auto
      from eq il jl have "map strip words ! i = map strip words ! j" by simp
      with dw il jl show "i = j" by (simp only: nth_eq_iff_index_eq)
    qed
    with d show ?thesis by (simp add: distinct_map)
  qed
  from 1 2 3 l d r show ?thesis by auto
qed

theorem generate_random_text_tokens_witness:
  "fs world_dict ''dict.txt'' = Some (File [''alpha'' @ [CHR 0x0A], ''beta'' @ [CHR 0x0A], ''gamma'' @ [CHR 0x0A]])
   \<and> (0::int) \<le> 2 \<and> (2::int) \<le> int (length [''alpha'' @ [CHR 0x0A], ''beta'' @ [CHR 0x0A], ''gamma'' @ [CHR 0x0A]])
   \<and> distinct (map strip [''alpha'' @ [CHR 0x0A], ''beta'' @ [CHR 0x0A], ''gamma'' @ [CHR 0x0A]])
   \<and> (\<exists>ps toks. fst (generate_random_text env0 (Some ''dict.txt'') 2 world_dict) = Inr (join '' '' toks)
         \<and> toks = map (\<lambda>i. strip ([''alpha'' @ [CHR 0x0A], ''beta'' @ [CHR 0x0A], ''gamma'' @ [CHR 0x0A]] ! i)) ps
         \<and> length toks = 2 \<and> distinct ps \<and> distinct toks)"
proof -
  have f: "fs world_dict ''dict.txt'' = Some (File [''alpha'' @ [CHR 0x0A], ''beta'' @ [CHR 0x0A], ''gamma'' @ [CHR 0x0A]])"
    by (simp add: world_dict_def world0_def)
  have d: "distinct (map strip [''alpha'' @ [CHR 0x0A], ''beta'' @ [CHR 0x0A], ''gamma'' @ [CHR 0x0A]])"
    by (simp add: strip_def is_space_def)
  from generate_random_text_tokens [OF f, of 2 env0] d f show ?thesis
    by fastforce
qed

theorem generate_random_text_repeats:
  "fst (generate_random_text env0 (Some ''dict.txt'') 2 world_dup) = Inr (join '' '' [''a'', ''a''])
   \<and> \<not> distinct [''a'', ''a'']
   \<and> fs world_dup ''dict.txt'' = Some (File [''a'' @ [CHR 0x0A], ''a'' @ [CHR 0x0A]])"
  by (simp add: generate_random_text_def random_text_body_def sample_def randbelow_def
      numeral_2_eq_2 Let_def strip_def is_space_def world_dup_def world0_def env0_def logging_def)

section \<open>A word count above the dictionary\<close>

lemma py_range_nonpos: "n \<le> 0 \<Longrightarrow> py_range n = []"
  by (simp add: py_range_def)

lemma py_range_pos: "0 < n \<Longrightarrow> py_range n = 0 # map int [1..<nat n]"
  by (simp add: py_range_def upt_conv_Cons)

lemma length_py_range: "length (py_range n) = nat n"
  by (simp add: py_range_def)

lemma train_mode_no_shots:
  "args_shots a \<le> 0 \<Longrightarrow> \<exists>c. train_mode e a pool config w = (Inr c, w)"
  by (induction pool arbitrary: config) (simp_all add: py_range_nonpos)

lemma train_mode_first_sample_fails:
  assumes "args_dict_file a = Some p" and "fs w p = Some (File words)"
    and "int (length words) < args_word_count a" and "0 < args_shots a"
  shows "train_mode e a (wav_file # wavs) config w =
           (Inl Sample_out_of_range, logging ERROR (Random_text_failed Sample_out_of_range) w)"
  using assms
  by (simp add: py_range_pos generate_random_text_too_many [of w p words])

text \<open>
  Claim C5, amended. Let the dictionary file have fewer lines than the word count asked
  for. Then a train run launches no process and leaves the filesystem as it is. With a
  speaker pool that is not empty and at least one shot, it fails with the error of
  \<^verbatim>\<open>random.sample\<close>, raised for the first job before its synthesis. With an empty pool or
  with no shot (\<^verbatim>\<open>--shots 0\<close> or less) no text is ever asked for, and the run returns
  without an error.
\<close>

theorem train_mode_too_many_words:
  assumes "args_dict_file a = Some p" and "fs w p = Some (File words)"
    and "int (length words) < args_word_count a"
  shows "spawned (snd (train_mode e a pool config w)) = spawned w
         \<and> fs (snd (train_mode e a pool config w)) = fs w
         \<and> (pool \<noteq> [] \<and> 0 < args_shots a \<longrightarrow>
              fst (train_mode e a pool config w) = Inl Sample_out_of_range)
         \<and> (pool = [] \<or> args_shots a \<le> 0 \<longrightarrow>
              (\<exists>c. train_mode e a pool config w = (Inr c, w)))"
proof (cases "pool = [] \<or> args_shots a \<le> 0")
  case True
  then have "\<exists>c. train_mode e a pool config w = (Inr c, w)"
  proof
    assume "pool = []"
    then show ?thesis by simp
  next
    assume "args_shots a \<le> 0"
    then show ?thesis by (rule train_mode_no_shots)
  qed
  with True show ?thesis by auto
next
  case False
  then obtain wav_file wavs where p: "pool = wav_file # wavs" and s: "0 < args_shots a"
    by (cases pool) auto
  show ?thesis
    unfolding p train_mode_first_sample_fails [OF assms s]
    using s by (simp add: logging_def)
qed

theorem train_mode_too_many_words_witness:
  "args_dict_file args_train = Some ''dict.txt''
   \<and> fs world_dict ''dict.txt'' = Some (File [''alpha'' @ [CHR 0x0A], ''beta'' @ [CHR 0x0A], ''gamma'' @ [CHR 0x0A]])
   \<and> int (length [''alpha'' @ [CHR 0x0A], ''beta'' @ [CHR 0x0A], ''gamma'' @ [CHR 0x0A]]) < args_word_count args_train
   \<and> [''in/a.wav''] \<noteq> [] \<and> 0 < args_shots args_train
   \<and> fst (train_mode env0 args_train [''in/a.wav''] config0 world_dict) = Inl Sample_out_of_range
   \<and> spawned (snd (train_mode env0 args_train [''in/a.wav''] config0 world_dict)) = []"
proof -
  have d: "args_dict_file args_train = Some ''dict.txt''"
    by (simp add: args_train_def)
  have f: "fs world_dict ''dict.txt'' = Some (File [''alpha'' @ [CHR 0x0A], ''beta'' @ [CHR 0x0A], ''gamma'' @ [CHR 0x0A]])"
    by (simp add: world_dict_def world0_def)
  have n: "int (length [''alpha'' @ [CHR 0x0A], ''beta'' @ [CHR 0x0A], ''gamma'' @ [CHR 0x0A]]) < args_word_count args_train"
    by (simp add: args_train_def args0_def)
  have s: "0 < args_shots args_train"
    by (simp add: args_train_def args0_def)
  have w: "spawned world_dict = []"
    by (simp add: world_dict_def world0_def)
  from train_mode_too_many_words [OF d f n, of env0 "[''in/a.wav'']" config0] d f n s w
  show ?thesis by simp
qed

theorem train_mode_no_shots_no_error:
  "train_mode env0 args_train_noshots [''in/a.wav''] config0 world_dict =
     (Inr (config0\<lparr>speaker_wav := Some [''in/a.wav'']\<rparr>), world_dict)
   \<and> int (length [''alpha'' @ [CHR 0x0A], ''beta'' @ [CHR 0x0A], ''gamma'' @ [CHR 0x0A]]) < args_word_count args_train_noshots
   \<and> args_dict_file args_train_noshots = Some ''dict.txt''
   \<and> fs world_dict ''dict.txt'' = Some (File [''alpha'' @ [CHR 0x0A], ''beta'' @ [CHR 0x0A], ''gamma'' @ [CHR 0x0A]])
   \<and> fst (main env0 args_train_noshots world_dict) = Inr ()"
  by (simp add: main_def check_tts_command_exists_def get_speaker_wav_def shuffle_def
      randbelow_def path_join_def make_config_def numeral_2_eq_2 Let_def logging_def
      args_train_noshots_def args_train_def args0_def py_range_def world_dict_def world0_def
      env0_def)

section \<open>The output relocator\<close>

lemma move_output_file_unfold:
  "move_output_file e output_path output_wav_dir w =
    (if fs w output_wav_dir = None \<and> \<not> mkdir_ok e (fs w) output_wav_dir
     then (Inl Fs_error, logging ERROR (Move_failed Fs_error) w)
     else let w1 = (if fs w output_wav_dir = None
                    then w\<lparr>fs := (fs w)(output_wav_dir \<mapsto> Dir)\<rparr> else w)
       in if fs w1 output_path = None
          then (Inr None, logging ERROR (Does_not_exist output_path) w1)
          else let new_path = path_join output_wav_dir (uuid_str (uuid_bits e (uuids w)) @ ''.wav'');
                   w2 = w1\<lparr>uuids := Suc (uuids w)\<rparr>
            in if \<not> rename_ok e (fs w1) output_path new_path
               then (Inl Fs_error, logging ERROR (Move_failed Fs_error) w2)
               else (Inr (Some new_path),
                     logging INFO (Moved output_path new_path)
                       (w2\<lparr>fs := ((fs w1)(output_path := None))(new_path := fs w1 output_path)\<rparr>)))"
  by (simp add: move_output_file_def move_body_def os_makedirs_def os_rename_def uuid4_def
      path_exists_def Let_def)













section \<open>The output directory\<close>



section \<open>One job\<close>

lemma run_tts_command_unfold:
  "run_tts_command e config utterance w =
    (let command = build_command config utterance;
         r = tool e command (length (spawned w)) (fs w);
         w1 = w\<lparr>fs := snd r, spawned := spawned w @ [command],
                logs := logs w @ [(INFO, Running_tts command)]\<rparr>
     in if fst r \<noteq> 0
        then (None, w1\<lparr>logs := logs w @ [(INFO, Running_tts command),
                                         (ERROR, Tts_failed (fst r) command)]\<rparr>)
        else (Some (out_path config), w1))"
  by (simp add: run_tts_command_def Let_def logging_def case_prod_beta)

lemma move_output_file_frame:
  "spawned (snd (move_output_file e p d w)) = spawned w
   \<and> draws (snd (move_output_file e p d w)) = draws w"
  by (simp add: move_output_file_unfold Let_def logging_def)

lemma process_wav_file_frame:
  "spawned (snd (process_wav_file e config utterance d w)) = spawned w @ [build_command config utterance]
   \<and> draws (snd (process_wav_file e config utterance d w)) = draws w"
  by (simp add: process_wav_file_def run_tts_command_unfold Let_def move_output_file_frame)

lemma process_wav_file_nonzero:
  assumes "fst (tool e (build_command config utterance) (length (spawned w)) (fs w)) \<noteq> 0"
  shows "process_wav_file e config utterance d w = (Inr None, snd (run_tts_command e config utterance w))"
  using assms by (simp add: process_wav_file_def run_tts_command_unfold Let_def)

text \<open>
  Claim C6. Let \<open>rc\<close> be the exit code of the process that \<^verbatim>\<open>run_tts_command\<close> launches.
  \<^item> If \<open>rc\<close> is zero, the invoker returns the configured output path.
  \<^item> If \<open>rc\<close> is not zero, the invoker returns \<^verbatim>\<open>None\<close> and its last log line is the error.
    The job, \<^verbatim>\<open>process_wav_file\<close>, then returns \<^verbatim>\<open>None\<close> without raising and without
    calling the relocator: the filesystem is the one the tool left, no identifier was
    consumed, and exactly one process was launched (no second attempt).
  \<^item> In that case each of the three loops of the mode drivers goes on with the remaining
    iterations: the single-speaker loop of generate mode, the loop of train mode (whose
    text was sampled before), and the merged-voice loop of generate mode (whose speakers
    were sampled before).
\<close>

theorem run_tts_command_exit_code:
  fixes e config utterance w
  defines "command \<equiv> build_command config utterance"
    and "rc \<equiv> fst (tool e (build_command config utterance) (length (spawned w)) (fs w))"
    and "job \<equiv> (\<lambda>d. process_wav_file e config utterance d w)"
  shows "(rc = 0 \<longrightarrow> fst (run_tts_command e config utterance w) = Some (out_path config))
    \<and> (rc \<noteq> 0 \<longrightarrow>
         fst (run_tts_command e config utterance w) = None
         \<and> logs (snd (run_tts_command e config utterance w))
             = logs w @ [(INFO, Running_tts command), (ERROR, Tts_failed rc command)]
         \<and> (\<forall>d. job d = (Inr None, snd (run_tts_command e config utterance w))
                \<and> fs (snd (job d)) = snd (tool e command (length (spawned w)) (fs w))
                \<and> uuids (snd (job d)) = uuids w
                \<and> spawned (snd (job d)) = spawned w @ [command])
         \<and> (\<forall>a wav_file i is. utterance = fstr (args_text a) \<longrightarrow>
               generate_shots e a config wav_file (i # is) w =
               generate_shots e a config wav_file is
                 (logging INFO (Generated_for_wav wav_file (i + 1) None)
                    (snd (job (args_output_wav_dir a)))))
         \<and> (\<forall>a wav_file i is w0.
               generate_random_text e (args_dict_file a) (args_word_count a) w0 = (Inr utterance, w) \<longrightarrow>
               train_shots e a config wav_file (i # is) w0 =
               train_shots e a config wav_file is
                 (logging INFO (Generated_for_wav wav_file (i + 1) None)
                    (snd (job (args_output_wav_dir a)))))
         \<and> (\<forall>a pool config0 i is w0 w1 w2 num_files selected.
               randint e (args_min_merge a) (args_max_merge a) w0 = (Inr num_files, w1)
               \<and> sample e pool (min num_files (int (length pool))) w1 = (Inr selected, w2)
               \<and> w = logging INFO (Selected_files (length selected) selected) w2
               \<and> config = config0\<lparr>speaker_wav := Some selected\<rparr>
               \<and> utterance = fstr (args_text a) \<longrightarrow>
               generate_merged e a pool config0 (i # is) w0 =
               generate_merged e a pool config is
                 (logging INFO (Generated_for_merged (i + 1) None)
                    (snd (job (args_output_wav_dir a))))))"
proof -
  have Z: "fst (run_tts_command e config utterance w) = Some (out_path config)" if "rc = 0"
    using that by (simp add: rc_def run_tts_command_unfold Let_def)
  have N1: "fst (run_tts_command e config utterance w) = None
         \<and> logs (snd (run_tts_command e config utterance w))
             = logs w @ [(INFO, Running_tts command), (ERROR, Tts_failed rc command)]"
    if "rc \<noteq> 0"
    using that by (simp add: rc_def command_def run_tts_command_unfold Let_def)
  have J: "job d = (Inr None, snd (run_tts_command e config utterance w))" if "rc \<noteq> 0" for d
    unfolding job_def using that unfolding rc_def by (rule process_wav_file_nonzero)
  have N2: "job d = (Inr None, snd (run_tts_command e config utterance w))
                \<and> fs (snd (job d)) = snd (tool e command (length (spawned w)) (fs w))
                \<and> uuids (snd (job d)) = uuids w
                \<and> spawned (snd (job d)) = spawned w @ [command]"
    if "rc \<noteq> 0" for d
    using that J [OF that, of d]
    by (simp add: rc_def command_def run_tts_command_unfold Let_def)
  have N3: "generate_shots e a config wav_file (i # is) w =
               generate_shots e a config wav_file is
                 (logging INFO (Generated_for_wav wav_file (i + 1) None)
                    (snd (job (args_output_wav_dir a))))"
    if "rc \<noteq> 0" and "utterance = fstr (args_text a)" for a wav_file i "is"
    using J [OF that(1), of "args_output_wav_dir a"] that(2) by (simp add: job_def)
  have N4: "train_shots e a config wav_file (i # is) w0 =
               train_shots e a config wav_file is
                 (logging INFO (Generated_for_wav wav_file (i + 1) None)
                    (snd (job (args_output_wav_dir a))))"
    if "rc \<noteq> 0"
      and "generate_random_text e (args_dict_file a) (args_word_count a) w0 = (Inr utterance, w)"
    for a wav_file i "is" w0
    using J [OF that(1), of "args_output_wav_dir a"] that(2) by (simp add: job_def)
  have N5: "generate_merged e a pool config0 (i # is) w0 =
               generate_merged e a pool config is
                 (logging INFO (Generated_for_merged (i + 1) None)
                    (snd (job (args_output_wav_dir a))))"
    if "rc \<noteq> 0"
      and "randint e (args_min_merge a) (args_max_merge a) w0 = (Inr num_files, w1)"
      and "sample e pool (min num_files (int (length pool))) w1 = (Inr selected, w2)"
      and "w = logging INFO (Selected_files (length selected) selected) w2"
      and "config = config0\<lparr>speaker_wav := Some selected\<rparr>"
      and "utterance = fstr (args_text a)"
    for a pool config0 i "is" w0 w1 w2 num_files selected
    using J [OF that(1), of "args_output_wav_dir a"] that(2-6) by (simp add: job_def Let_def)
  show ?thesis
  proof (intro conjI impI allI)
    assume "rc = 0"
    then show "fst (run_tts_command e config utterance w) = Some (out_path config)" by (rule Z)
  next
    assume "rc \<noteq> 0"
    then show "fst (run_tts_command e config utterance w) = None"
      by (rule conjunct1 [OF N1])
  next
    assume "rc \<noteq> 0"
    then show "logs (snd (run_tts_command e config utterance w))
             = logs w @ [(INFO, Running_tts command), (ERROR, Tts_failed rc command)]"
      by (rule conjunct2 [OF N1])
  next
    fix d assume "rc \<noteq> 0"
    from N2 [OF this, of d]
    show "job d = (Inr None, snd (run_tts_command e config utterance w))" by (rule conjunct1)
  next
    fix d assume "rc \<noteq> 0"
    from N2 [OF this, of d]
    show "fs (snd (job d)) = snd (tool e command (length (spawned w)) (fs w))"
      by (rule conjunct1 [OF conjunct2])
  next
    fix d assume "rc \<noteq> 0"
    from N2 [OF this, of d]
    show "uuids (snd (job d)) = uuids w"
      by (rule conjunct1 [OF conjunct2 [OF conjunct2]])
  next
    fix d assume "rc \<noteq> 0"
    from N2 [OF this, of d]
    show "spawned (snd (job d)) = spawned w @ [command]"
      by (rule conjunct2 [OF conjunct2 [OF conjunct2]])
  next
    fix a :: args and wav_file i "is"
    assume "rc \<noteq> 0" and "utterance = fstr (args_text a)"
    then show "generate_shots e a config wav_file (i # is) w =
               generate_shots e a config wav_file is
                 (logging INFO (Generated_for_wav wav_file (i + 1) None)
                    (snd (job (args_output_wav_dir a))))"
      by (rule N3)
  next
    fix a :: args and wav_file i "is" w0
    assume "rc \<noteq> 0"
      and "generate_random_text e (args_dict_file a) (args_word_count a) w0 = (Inr utterance, w)"
    then show "train_shots e a config wav_file (i # is) w0 =
               train_shots e a config wav_file is
                 (logging INFO (Generated_for_wav wav_file (i + 1) None)
                    (snd (job (args_output_wav_dir a))))"
      by (rule N4)
  next
    fix a :: args and pool config0 i "is" w0 w1 w2 num_files selected
    assume r: "rc \<noteq> 0"
      and h: "randint e (args_min_merge a) (args_max_merge a) w0 = (Inr num_files, w1)
               \<and> sample e pool (min num_files (int (length pool))) w1 = (Inr selected, w2)
               \<and> w = logging INFO (Selected_files (length selected) selected) w2
               \<and> config = config0\<lparr>speaker_wav := Some selected\<rparr>
               \<and> utterance = fstr (args_text a)"
    from h have h1: "randint e (args_min_merge a) (args_max_merge a) w0 = (Inr num_files, w1)"
      and h2: "sample e pool (min num_files (int (length pool))) w1 = (Inr selected, w2)"
      and h3: "w = logging INFO (Selected_files (length selected) selected) w2"
      and h4: "config = config0\<lparr>speaker_wav := Some selected\<rparr>"
      and h5: "utterance = fstr (args_text a)"
      by blast+
    show "generate_merged e a pool config0 (i # is) w0 =
               generate_merged e a pool config is
                 (logging INFO (Generated_for_merged (i + 1) None)
                    (snd (job (args_output_wav_dir a))))"
      by (rule N5 [OF r h1 h2 h3 h4 h5])
  qed
qed

theorem run_tts_command_exit_code_witness:
  "fst (tool env0 (build_command config0 ''hello'') (length (spawned world0)) (fs world0)) = 0
   \<and> fst (run_tts_command env0 config0 ''hello'' world0) = Some ''tts_output.wav''
   \<and> fst (tool env_fail (build_command config0 ''hello'') (length (spawned world0)) (fs world0)) \<noteq> 0
   \<and> fst (run_tts_command env_fail config0 ''hello'' world0) = None
   \<and> fst (process_wav_file env_fail config0 ''hello'' ''out'' world0) = Inr None
   \<and> fs (snd (process_wav_file env_fail config0 ''hello'' ''out'' world0)) = Map.empty
   \<and> ''hello'' = fstr (args_text args0)
   \<and> fst (generate_shots env_fail args0 config0 ''a.wav'' [0, 1] world0) = Inr ()
   \<and> length (spawned (snd (generate_shots env_fail args0 config0 ''a.wav'' [0, 1] world0))) = 2
   \<and> fst (train_shots env_fail args_train2 config0 ''a.wav'' [0, 1] world_dict) = Inr ()
   \<and> length (spawned (snd (train_shots env_fail args_train2 config0 ''a.wav'' [0, 1] world_dict))) = 2"
  using
    run_tts_command_exit_code [where e = env0 and config = config0 and utterance = "''hello''"
      and w = world0]
    run_tts_command_exit_code [where e = env_fail and config = config0 and utterance = "''hello''"
      and w = world0]
  by (simp add: env0_def env_fail_def world0_def world_dict_def config0_def args0_def args_train_def
      args_train2_def process_wav_file_def run_tts_command_unfold Let_def logging_def
      generate_random_text_def random_text_body_def sample_def randbelow_def numeral_2_eq_2)

section \<open>Generate mode\<close>

lemma spawned_logging [simp]: "spawned (logging l m w) = spawned w"
  by (simp add: logging_def)

lemma draws_logging [simp]: "draws (logging l m w) = draws w"
  by (simp add: logging_def)

lemma spawned_process_wav_file:
  "process_wav_file e config utterance d w = (r, w') \<Longrightarrow>
   spawned w' = spawned w @ [build_command config utterance]"
  using process_wav_file_frame [of e config utterance d w] by simp


lemma generate_shots_spawned:
  "generate_shots e a config wav_file is w = (Inr u, w') \<Longrightarrow>
   spawned w' = spawned w @ replicate (length is) (build_command config (fstr (args_text a)))"
proof (induction "is" arbitrary: w)
  case Nil
  then show ?case by simp
next
  case (Cons i "is")
  obtain r w1 where p: "process_wav_file e config (fstr (args_text a)) (args_output_wav_dir a) w = (r, w1)"
    by (cases "process_wav_file e config (fstr (args_text a)) (args_output_wav_dir a) w")
  show ?case
  proof (cases r)
    case (Inl x)
    with Cons.prems p show ?thesis by simp
  next
    case (Inr result)
    with Cons.prems p
    have "generate_shots e a config wav_file is
            (logging INFO (Generated_for_wav wav_file (i + 1) result) w1) = (Inr u, w')"
      by simp
    from Cons.IH [OF this] spawned_process_wav_file [OF p]
    show ?thesis by (simp add: replicate_append_same)
  qed
qed

lemma generate_speakers_spawned:
  "generate_speakers e a config pool w = (Inr config', w') \<Longrightarrow>
   spawned w' = spawned w @
     concat (map (\<lambda>wav_file. replicate (nat (args_shots a))
                    (build_command (config\<lparr>speaker_wav := Some [wav_file]\<rparr>) (fstr (args_text a))))
               pool)"
proof (induction pool arbitrary: config w)
  case Nil
  then show ?case by simp
next
  case (Cons wav_file wavs)
  let ?c = "config\<lparr>speaker_wav := Some [wav_file]\<rparr>"
  let ?w = "logging INFO (Processing_input wav_file) w"
  obtain r w1 where s: "generate_shots e a ?c wav_file (py_range (args_shots a)) ?w = (r, w1)"
    by (cases "generate_shots e a ?c wav_file (py_range (args_shots a)) ?w")
  show ?case
  proof (cases r)
    case (Inl x)
    with Cons.prems s show ?thesis by (simp add: Let_def)
  next
    case (Inr u)
    with Cons.prems s have "generate_speakers e a ?c wavs w1 = (Inr config', w')"
      by (simp add: Let_def)
    from Cons.IH [OF this] generate_shots_spawned [OF s [unfolded Inr]]
    show ?thesis by (simp add: length_py_range)
  qed
qed

lemma randint_range:
  "randint e lo hi w = (Inr n, w') \<Longrightarrow> lo \<le> n \<and> n \<le> hi"
proof -
  assume r: "randint e lo hi w = (Inr n, w')"
  then have le: "lo \<le> hi" by (auto simp add: randint_def split: if_splits)
  with r have n: "n = lo + int (seed e (draws w) mod nat (hi - lo + 1))"
    by (auto simp add: randint_def randbelow_def Let_def)
  have "seed e (draws w) mod nat (hi - lo + 1) < nat (hi - lo + 1)"
    using le by simp
  with n le show ?thesis by linarith
qed

lemma sample_positions:
  assumes "sample e population k w = (Inr sel, w')"
  shows "0 \<le> k \<and> k \<le> int (length population) \<and> int (length sel) = k
         \<and> (\<exists>ps. sel = map ((!) population) ps \<and> distinct ps \<and> set ps \<subseteq> {..<length population})"
proof -
  from assms have k: "0 \<le> k" "k \<le> int (length population)"
    by (auto simp add: sample_def split: if_splits)
  from assms k have sel: "sel = fst (sample_loop e (nat k) population w)"
    by (simp add: sample_ok)
  from k have "nat k \<le> length population" by simp
  from sample_loop_positions [OF this, of e w] sel
  obtain ps where "sel = map ((!) population) ps" "length ps = nat k" "distinct ps"
    "set ps \<subseteq> {..<length population}" by auto
  with k show ?thesis by auto
qed

lemma generate_merged_spawned:
  "generate_merged e a pool config is w = (Inr config', w') \<Longrightarrow>
   \<exists>sels. length sels = length is
     \<and> spawned w' = spawned w @
          map (\<lambda>sel. build_command (config\<lparr>speaker_wav := Some sel\<rparr>) (fstr (args_text a))) sels
     \<and> (\<forall>sel \<in> set sels.
          (\<exists>n. args_min_merge a \<le> n \<and> n \<le> args_max_merge a
               \<and> int (length sel) = min n (int (length pool)))
          \<and> (\<exists>ps. sel = map ((!) pool) ps \<and> distinct ps \<and> set ps \<subseteq> {..<length pool}))"
proof (induction "is" arbitrary: config w)
  case Nil
  then show ?case by simp
next
  case (Cons i "is")
  obtain r1 w1 where ri: "randint e (args_min_merge a) (args_max_merge a) w = (r1, w1)"
    by (cases "randint e (args_min_merge a) (args_max_merge a) w")
  from Cons.prems ri obtain n where r1: "r1 = Inr n"
    by (cases r1) auto
  obtain r2 w2 where sa: "sample e pool (min n (int (length pool))) w1 = (r2, w2)"
    by (cases "sample e pool (min n (int (length pool))) w1")
  from Cons.prems ri r1 sa obtain sel where r2: "r2 = Inr sel"
    by (cases r2) auto
  let ?c = "config\<lparr>speaker_wav := Some sel\<rparr>"
  let ?w = "logging INFO (Selected_files (length sel) sel) w2"
  obtain r3 w3 where p: "process_wav_file e ?c (fstr (args_text a)) (args_output_wav_dir a) ?w = (r3, w3)"
    by (cases "process_wav_file e ?c (fstr (args_text a)) (args_output_wav_dir a) ?w")
  from Cons.prems ri r1 sa r2 p obtain result where r3: "r3 = Inr result"
    by (cases r3) (auto simp add: Let_def)
  from Cons.prems ri r1 sa r2 p r3
  have rest: "generate_merged e a pool ?c is
                (logging INFO (Generated_for_merged (i + 1) result) w3) = (Inr config', w')"
    by (simp add: Let_def)
  from Cons.IH [OF rest] obtain sels where
    l: "length sels = length is"
    and s: "spawned w' = spawned w3 @
          map (\<lambda>sel. build_command (config\<lparr>speaker_wav := Some sel\<rparr>) (fstr (args_text a))) sels"
    and q: "\<forall>sel \<in> set sels.
          (\<exists>n. args_min_merge a \<le> n \<and> n \<le> args_max_merge a
               \<and> int (length sel) = min n (int (length pool)))
          \<and> (\<exists>ps. sel = map ((!) pool) ps \<and> distinct ps \<and> set ps \<subseteq> {..<length pool})"
    by auto
  have sp1: "spawned w1 = spawned w"
    using ri r1 by (auto simp add: randint_def randbelow_def Let_def split: if_splits)
  have sp2: "spawned w2 = spawned w1"
    using sa r2 by (auto simp add: sample_def sample_loop_world case_prod_beta Let_def split: if_splits)
  have sp3: "spawned w3 = spawned w @ [build_command ?c (fstr (args_text a))]"
    using spawned_process_wav_file [OF p] sp1 sp2 by simp
  from randint_range [OF ri [unfolded r1]]
  have n: "args_min_merge a \<le> n \<and> n \<le> args_max_merge a" .
  from sample_positions [OF sa [unfolded r2]]
  have sl: "int (length sel) = min n (int (length pool))"
    and ps: "\<exists>ps. sel = map ((!) pool) ps \<and> distinct ps \<and> set ps \<subseteq> {..<length pool}"
    by auto
  let ?sels = "sel # sels"
  have 1: "length ?sels = length (i # is)" using l by simp
  have 2: "spawned w' = spawned w @
          map (\<lambda>sel. build_command (config\<lparr>speaker_wav := Some sel\<rparr>) (fstr (args_text a))) ?sels"
    using s sp3 by simp
  have 3: "\<forall>sel \<in> set ?sels.
          (\<exists>n. args_min_merge a \<le> n \<and> n \<le> args_max_merge a
               \<and> int (length sel) = min n (int (length pool)))
          \<and> (\<exists>ps. sel = map ((!) pool) ps \<and> distinct ps \<and> set ps \<subseteq> {..<length pool})"
    using q n sl ps by auto
  from 1 2 3 show ?case by blast
qed

lemma length_concat_replicate:
  "length (concat (map (\<lambda>x. replicate n (f x)) xs)) = length xs * n"
  by (induction xs) simp_all

lemma generate_mode_spawned:
  assumes "generate_mode e a pool config w = (Inr config', w')"
  shows "\<exists>sels. length sels = nat (args_shots a)
     \<and> spawned w' = spawned w @
          concat (map (\<lambda>wav_file. replicate (nat (args_shots a))
                         (build_command (config\<lparr>speaker_wav := Some [wav_file]\<rparr>) (fstr (args_text a))))
                    pool) @
          map (\<lambda>sel. build_command (config\<lparr>speaker_wav := Some sel\<rparr>) (fstr (args_text a))) sels
     \<and> (\<forall>sel \<in> set sels.
          (\<exists>n. args_min_merge a \<le> n \<and> n \<le> args_max_merge a
               \<and> int (length sel) = min n (int (length pool)))
          \<and> (\<exists>ps. sel = map ((!) pool) ps \<and> distinct ps \<and> set ps \<subseteq> {..<length pool}))"
proof -
  obtain r w1 where s: "generate_speakers e a config pool w = (r, w1)"
    by (cases "generate_speakers e a config pool w")
  from assms s obtain c1 where r: "r = Inr c1"
    by (cases r) (auto simp add: generate_mode_def)
  from assms s r have m: "generate_merged e a pool c1 (py_range (args_shots a)) w1 = (Inr config', w')"
    by (simp add: generate_mode_def)
  have c1: "\<exists>v. c1 = config\<lparr>speaker_wav := v\<rparr>"
    using s [unfolded r]
  proof (induction pool arbitrary: config w)
    case Nil
    then have "c1 = config\<lparr>speaker_wav := speaker_wav config\<rparr>" by simp
    then show ?case by blast
  next
    case (Cons wav_file wavs)
    let ?c = "config\<lparr>speaker_wav := Some [wav_file]\<rparr>"
    let ?w = "logging INFO (Processing_input wav_file) w"
    obtain r2 w2 where g: "generate_shots e a ?c wav_file (py_range (args_shots a)) ?w = (r2, w2)"
      by (cases "generate_shots e a ?c wav_file (py_range (args_shots a)) ?w")
    from Cons.prems g obtain u where "r2 = Inr u" by (cases r2) (auto simp add: Let_def)
    with Cons.prems g have "generate_speakers e a ?c wavs w2 = (Inr c1, w1)"
      by (simp add: Let_def)
    from Cons.IH [OF this] obtain v where "c1 = ?c\<lparr>speaker_wav := v\<rparr>" by blast
    then have "c1 = config\<lparr>speaker_wav := v\<rparr>" by simp
    then show ?case by blast
  qed
  then obtain v where v: "c1 = config\<lparr>speaker_wav := v\<rparr>" by blast
  from generate_merged_spawned [OF m] obtain sels where
    l: "length sels = length (py_range (args_shots a))"
    and sp: "spawned w' = spawned w1 @
          map (\<lambda>sel. build_command (c1\<lparr>speaker_wav := Some sel\<rparr>) (fstr (args_text a))) sels"
    and q: "\<forall>sel \<in> set sels.
          (\<exists>n. args_min_merge a \<le> n \<and> n \<le> args_max_merge a
               \<and> int (length sel) = min n (int (length pool)))
          \<and> (\<exists>ps. sel = map ((!) pool) ps \<and> distinct ps \<and> set ps \<subseteq> {..<length pool})"
    by blast
  have 1: "length sels = nat (args_shots a)" using l by (simp add: length_py_range)
  have 2: "spawned w' = spawned w @
          concat (map (\<lambda>wav_file. replicate (nat (args_shots a))
                         (build_command (config\<lparr>speaker_wav := Some [wav_file]\<rparr>) (fstr (args_text a))))
                    pool) @
          map (\<lambda>sel. build_command (config\<lparr>speaker_wav := Some sel\<rparr>) (fstr (args_text a))) sels"
    using sp generate_speakers_spawned [OF s [unfolded r]] by (simp add: v)
  from 1 2 q show ?thesis by blast
qed

lemma process_wav_file_no_fault:
  assumes "\<forall>f d. mkdir_ok e f d" and "\<forall>f x y. rename_ok e f x y"
  shows "\<exists>r w'. process_wav_file e config utterance d w = (Inr r, w')"
  using assms
  by (simp add: process_wav_file_def run_tts_command_unfold move_output_file_unfold Let_def)

lemma generate_shots_completes:
  assumes "\<forall>f d. mkdir_ok e f d" and "\<forall>f x y. rename_ok e f x y"
  shows "\<exists>w'. generate_shots e a config wav_file is w = (Inr (), w')"
proof (induction "is" arbitrary: w)
  case Nil
  show ?case by simp
next
  case (Cons i "is")
  from process_wav_file_no_fault [OF assms]
  obtain r w1 where "process_wav_file e config (fstr (args_text a)) (args_output_wav_dir a) w = (Inr r, w1)"
    by blast
  with Cons.IH show ?case by simp
qed

lemma generate_speakers_completes:
  assumes "\<forall>f d. mkdir_ok e f d" and "\<forall>f x y. rename_ok e f x y"
  shows "\<exists>c' w'. generate_speakers e a config pool w = (Inr c', w')"
proof (induction pool arbitrary: config w)
  case Nil
  show ?case by simp
next
  case (Cons wav_file wavs)
  from generate_shots_completes [OF assms]
  obtain w1 where "generate_shots e a (config\<lparr>speaker_wav := Some [wav_file]\<rparr>) wav_file
      (py_range (args_shots a)) (logging INFO (Processing_input wav_file) w) = (Inr (), w1)"
    by blast
  with Cons.IH show ?case by (simp add: Let_def)
qed

lemma generate_merged_completes:
  assumes "\<forall>f d. mkdir_ok e f d" and "\<forall>f x y. rename_ok e f x y"
    and "0 \<le> args_min_merge a" and "args_min_merge a \<le> args_max_merge a"
  shows "\<exists>c' w'. generate_merged e a pool config is w = (Inr c', w')"
proof (induction "is" arbitrary: config w)
  case Nil
  show ?case by simp
next
  case (Cons i "is")
  obtain n w1 where ri: "randint e (args_min_merge a) (args_max_merge a) w = (Inr n, w1)"
    using assms(4) by (simp add: randint_def case_prod_beta)
  from randint_range [OF ri] assms(3) have n: "0 \<le> n" by simp
  let ?k = "min n (int (length pool))"
  have "0 \<le> ?k" and "?k \<le> int (length pool)" using n by simp_all
  then obtain sel w2 where sa: "sample e pool ?k w1 = (Inr sel, w2)"
    by (simp add: sample_ok)
  from process_wav_file_no_fault [OF assms(1,2)]
  obtain r w3 where p: "process_wav_file e (config\<lparr>speaker_wav := Some sel\<rparr>) (fstr (args_text a))
      (args_output_wav_dir a) (logging INFO (Selected_files (length sel) sel) w2) = (Inr r, w3)"
    by blast
  from ri sa p Cons.IH show ?case by (simp add: Let_def)
qed

lemma generate_mode_completes:
  assumes "\<forall>f d. mkdir_ok e f d" and "\<forall>f x y. rename_ok e f x y"
    and "0 \<le> args_min_merge a" and "args_min_merge a \<le> args_max_merge a"
  shows "\<exists>c' w'. generate_mode e a pool config w = (Inr c', w')"
proof -
  from generate_speakers_completes [OF assms(1,2)]
  obtain c1 w1 where "generate_speakers e a config pool w = (Inr c1, w1)" by blast
  with generate_merged_completes [OF assms] show ?thesis
    by (simp add: generate_mode_def)
qed

text \<open>
  Claim C1, amended. Let a generate run over the pool end without a fatal error. Then the
  processes it launched are, in this order:
  \<^item> for every pool file in turn, \<open>shots\<close> single-speaker jobs, each with that file as its
    only speaker reference and with the operator's text;
  \<^item> then \<open>shots\<close> merged-voice jobs with the same text, each with a speaker list \<open>sel\<close>
    that is the pool read at pairwise different positions.
  That makes \<open>P \<times> S + S\<close> launches for a pool of \<open>P\<close> files and \<open>S\<close> shots. The size of
  every \<open>sel\<close> is \<open>min n P\<close> for a number \<open>n\<close> between \<open>min_merge\<close> and \<open>max_merge\<close>: it lies
  between \<open>min min_merge P\<close> and \<open>min max_merge P\<close>. The lower bound is capped by the pool size
  as well, so with a pool smaller than \<open>min_merge\<close> the whole pool is taken.
\<close>

theorem generate_mode_jobs:
  assumes "generate_mode e a pool config w = (Inr config', w')"
  shows "\<exists>sels. length sels = nat (args_shots a)
     \<and> spawned w' = spawned w @
          concat (map (\<lambda>wav_file. replicate (nat (args_shots a))
                         (build_command (config\<lparr>speaker_wav := Some [wav_file]\<rparr>) (fstr (args_text a))))
                    pool) @
          map (\<lambda>sel. build_command (config\<lparr>speaker_wav := Some sel\<rparr>) (fstr (args_text a))) sels
     \<and> length (spawned w') = length (spawned w) + length pool * nat (args_shots a) + nat (args_shots a)
     \<and> (\<forall>sel \<in> set sels.
          min (args_min_merge a) (int (length pool)) \<le> int (length sel)
          \<and> int (length sel) \<le> min (args_max_merge a) (int (length pool))
          \<and> (\<exists>ps. sel = map ((!) pool) ps \<and> distinct ps \<and> set ps \<subseteq> {..<length pool}))"
proof -
  from generate_mode_spawned [OF assms] obtain sels where
    l: "length sels = nat (args_shots a)"
    and sp: "spawned w' = spawned w @
          concat (map (\<lambda>wav_file. replicate (nat (args_shots a))
                         (build_command (config\<lparr>speaker_wav := Some [wav_file]\<rparr>) (fstr (args_text a))))
                    pool) @
          map (\<lambda>sel. build_command (config\<lparr>speaker_wav := Some sel\<rparr>) (fstr (args_text a))) sels"
    and q: "\<forall>sel \<in> set sels.
          (\<exists>n. args_min_merge a \<le> n \<and> n \<le> args_max_merge a
               \<and> int (length sel) = min n (int (length pool)))
          \<and> (\<exists>ps. sel = map ((!) pool) ps \<and> distinct ps \<and> set ps \<subseteq> {..<length pool})"
    by blast
  have n: "length (spawned w') = length (spawned w) + length pool * nat (args_shots a) + nat (args_shots a)"
    unfolding sp by (simp add: length_concat_replicate l)
  have b: "\<forall>sel \<in> set sels.
          min (args_min_merge a) (int (length pool)) \<le> int (length sel)
          \<and> int (length sel) \<le> min (args_max_merge a) (int (length pool))
          \<and> (\<exists>ps. sel = map ((!) pool) ps \<and> distinct ps \<and> set ps \<subseteq> {..<length pool})"
  proof
    fix sel assume "sel \<in> set sels"
    with q obtain k where k: "args_min_merge a \<le> k" "k \<le> args_max_merge a"
        "int (length sel) = min k (int (length pool))"
      and ps: "\<exists>ps. sel = map ((!) pool) ps \<and> distinct ps \<and> set ps \<subseteq> {..<length pool}"
      by blast
    from k have "min (args_min_merge a) (int (length pool)) \<le> int (length sel)"
      and "int (length sel) \<le> min (args_max_merge a) (int (length pool))"
      by linarith+
    with ps show "min (args_min_merge a) (int (length pool)) \<le> int (length sel)
          \<and> int (length sel) \<le> min (args_max_merge a) (int (length pool))
          \<and> (\<exists>ps. sel = map ((!) pool) ps \<and> distinct ps \<and> set ps \<subseteq> {..<length pool})"
      by blast
  qed
  from l sp n b show ?thesis by blast
qed

theorem generate_mode_jobs_witness:
  "\<exists>c' w' sels. generate_mode env0 args0 [''in/a.wav'', ''in/b.wav'', ''in/c.wav'']
                  (make_config args0) world0 = (Inr c', w')
     \<and> length (spawned w') = 8 \<and> length sels = 2
     \<and> drop 6 (spawned w') =
         map (\<lambda>sel. build_command ((make_config args0)\<lparr>speaker_wav := Some sel\<rparr>) ''hello'') sels
     \<and> (\<forall>sel \<in> set sels. 2 \<le> length sel \<and> length sel \<le> 3)"
proof -
  let ?pool = "[''in/a.wav'', ''in/b.wav'', ''in/c.wav'']"
  have "\<exists>c' w'. generate_mode env0 args0 ?pool (make_config args0) world0 = (Inr c', w')"
    by (rule generate_mode_completes) (simp_all add: env0_def args0_def)
  then obtain c' w' where
    g: "generate_mode env0 args0 ?pool (make_config args0) world0 = (Inr c', w')"
    by blast
  from generate_mode_jobs [OF g] obtain sels where
    l: "length sels = nat (args_shots args0)"
    and sp: "spawned w' = spawned world0 @
          concat (map (\<lambda>wav_file. replicate (nat (args_shots args0))
                         (build_command ((make_config args0)\<lparr>speaker_wav := Some [wav_file]\<rparr>)
                            (fstr (args_text args0))))
                    ?pool) @
          map (\<lambda>sel. build_command ((make_config args0)\<lparr>speaker_wav := Some sel\<rparr>)
                 (fstr (args_text args0))) sels"
    and n: "length (spawned w') =
              length (spawned world0) + length ?pool * nat (args_shots args0) + nat (args_shots args0)"
    and b: "\<forall>sel \<in> set sels.
          min (args_min_merge args0) (int (length ?pool)) \<le> int (length sel)
          \<and> int (length sel) \<le> min (args_max_merge args0) (int (length ?pool))
          \<and> (\<exists>ps. sel = map ((!) ?pool) ps \<and> distinct ps \<and> set ps \<subseteq> {..<length ?pool})"
    by blast
  have 1: "length (spawned w') = 8" using n by (simp add: args0_def world0_def)
  have 2: "length sels = 2" using l by (simp add: args0_def)
  have 3: "drop 6 (spawned w') =
         map (\<lambda>sel. build_command ((make_config args0)\<lparr>speaker_wav := Some sel\<rparr>) ''hello'') sels"
    unfolding sp by (simp add: args0_def world0_def numeral_2_eq_2)
  have 4: "\<forall>sel \<in> set sels. 2 \<le> length sel \<and> length sel \<le> 3"
    using b by (simp add: args0_def)
  from g 1 2 3 4 show ?thesis by blast
qed

lemma single_position:
  assumes "sel = map ((!) [x]) ps" and "length sel = 1" and "set ps \<subseteq> {..<length [x]}"
  shows "sel = [x]"
proof -
  from assms(1,2) obtain p where p: "ps = [p]" by (cases ps) auto
  with assms(3) have "p = 0" by simp
  with p assms(1) show ?thesis by simp
qed

text \<open>
  With the default options (two shots, \<open>min_merge = 2\<close>) and a pool of one file the run
  ends without error after four launches. The last two are the merged-voice jobs, and
  their speaker list is the one pool file: its size 1 is below \<open>min_merge\<close>.
\<close>

theorem generate_mode_small_pool:
  "spawned (snd (generate_mode env0 args0 [''in/a.wav''] (make_config args0) world0)) =
     replicate 4
       (build_command ((make_config args0)\<lparr>speaker_wav := Some [''in/a.wav'']\<rparr>) ''hello'')
   \<and> \<not> isl (fst (generate_mode env0 args0 [''in/a.wav''] (make_config args0) world0))
   \<and> \<not> args_min_merge args0 \<le> int (length [''in/a.wav''])"
proof -
  let ?pool = "[''in/a.wav'']"
  have "\<exists>c' w'. generate_mode env0 args0 ?pool (make_config args0) world0 = (Inr c', w')"
    by (rule generate_mode_completes) (simp_all add: env0_def args0_def)
  then obtain c' w' where
    g: "generate_mode env0 args0 ?pool (make_config args0) world0 = (Inr c', w')"
    by blast
  from generate_mode_spawned [OF g] obtain sels where
    l: "length sels = nat (args_shots args0)"
    and sp: "spawned w' = spawned world0 @
          concat (map (\<lambda>wav_file. replicate (nat (args_shots args0))
                         (build_command ((make_config args0)\<lparr>speaker_wav := Some [wav_file]\<rparr>)
                            (fstr (args_text args0))))
                    ?pool) @
          map (\<lambda>sel. build_command ((make_config args0)\<lparr>speaker_wav := Some sel\<rparr>)
                 (fstr (args_text args0))) sels"
    and q: "\<forall>sel \<in> set sels.
          (\<exists>n. args_min_merge args0 \<le> n \<and> n \<le> args_max_merge args0
               \<and> int (length sel) = min n (int (length ?pool)))
          \<and> (\<exists>ps. sel = map ((!) ?pool) ps \<and> distinct ps \<and> set ps \<subseteq> {..<length ?pool})"
    by blast
  have e: "sel = ?pool" if "sel \<in> set sels" for sel
  proof -
    from q that obtain n ps where n: "args_min_merge args0 \<le> n"
        "int (length sel) = min n (int (length ?pool))"
      and ps: "sel = map ((!) ?pool) ps" "set ps \<subseteq> {..<length ?pool}"
      by blast
    from n have len: "length sel = 1" by (simp add: args0_def)
    show ?thesis by (rule single_position [OF ps(1) len ps(2)])
  qed
  from l have l2: "length sels = 2" by (simp add: args0_def)
  then obtain s1 s2 where s: "sels = [s1, s2]"
    by (cases sels; cases "tl sels") auto
  with e have "sels = [?pool, ?pool]" by simp
  moreover have "replicate 4 x = [x, x, x, x]" for x :: "string list"
    by (simp add: eval_nat_numeral)
  ultimately show ?thesis using sp g
    by (simp add: args0_def world0_def numeral_2_eq_2)
qed

section \<open>Train mode\<close>











section \<open>The language code\<close>

lemma build_command_language:
  "build_command config utterance ! 5 = ''--language_idx''
   \<and> build_command config utterance ! 6 = language_idx config"
  by (simp add: build_command_eq nth_append eval_nat_numeral)

lemma spawned_trans:
  assumes "\<exists>cs. spawned w1 = spawned w @ cs \<and> (\<forall>c \<in> set cs. P c)"
    and "\<exists>cs. spawned w2 = spawned w1 @ cs \<and> (\<forall>c \<in> set cs. P c)"
  shows "\<exists>cs. spawned w2 = spawned w @ cs \<and> (\<forall>c \<in> set cs. P c)"
proof -
  from assms(1) obtain c1 where 1: "spawned w1 = spawned w @ c1" "\<forall>c \<in> set c1. P c" by blast
  from assms(2) obtain c2 where 2: "spawned w2 = spawned w1 @ c2" "\<forall>c \<in> set c2. P c" by blast
  from 1 2 have "spawned w2 = spawned w @ (c1 @ c2)" "\<forall>c \<in> set (c1 @ c2). P c" by auto
  then show ?thesis by blast
qed

lemma process_wav_file_language:
  "\<exists>cs. spawned (snd (process_wav_file e config utterance d w)) = spawned w @ cs
        \<and> (\<forall>c \<in> set cs. c ! 5 = ''--language_idx'' \<and> c ! 6 = language_idx config)"
proof -
  have "spawned (snd (process_wav_file e config utterance d w)) =
          spawned w @ [build_command config utterance]"
    by (simp add: process_wav_file_frame)
  moreover have "\<forall>c \<in> set [build_command config utterance].
          c ! 5 = ''--language_idx'' \<and> c ! 6 = language_idx config"
    by (simp add: build_command_language)
  ultimately show ?thesis by blast
qed

lemma nothing_spawned:
  "spawned w' = spawned w \<Longrightarrow> \<exists>cs. spawned w' = spawned w @ cs \<and> (\<forall>c \<in> set cs. P c)"
  by (rule exI [of _ "[]"]) simp

lemma generate_shots_language:
  "\<exists>cs. spawned (snd (generate_shots e a config wav_file is w)) = spawned w @ cs
        \<and> (\<forall>c \<in> set cs. c ! 5 = ''--language_idx'' \<and> c ! 6 = language_idx config)"
proof (induction "is" arbitrary: w)
  case Nil
  show ?case by (rule nothing_spawned) simp
next
  case (Cons i "is")
  obtain r w1 where p: "process_wav_file e config (fstr (args_text a)) (args_output_wav_dir a) w = (r, w1)"
    by (cases "process_wav_file e config (fstr (args_text a)) (args_output_wav_dir a) w")
  from process_wav_file_language [of e config "fstr (args_text a)" "args_output_wav_dir a" w] p
  have 1: "\<exists>cs. spawned w1 = spawned w @ cs
        \<and> (\<forall>c \<in> set cs. c ! 5 = ''--language_idx'' \<and> c ! 6 = language_idx config)"
    by simp
  show ?case
  proof (cases r)
    case (Inl x)
    with p 1 show ?thesis by simp
  next
    case (Inr result)
    let ?w2 = "logging INFO (Generated_for_wav wav_file (i + 1) result) w1"
    from 1 have 2: "\<exists>cs. spawned ?w2 = spawned w @ cs
        \<and> (\<forall>c \<in> set cs. c ! 5 = ''--language_idx'' \<and> c ! 6 = language_idx config)"
      by simp
    from spawned_trans [OF 2 Cons.IH [of ?w2]] p Inr show ?thesis by simp
  qed
qed

lemma generate_speakers_language:
  "\<exists>cs. spawned (snd (generate_speakers e a config pool w)) = spawned w @ cs
        \<and> (\<forall>c \<in> set cs. c ! 5 = ''--language_idx'' \<and> c ! 6 = language_idx config)"
proof (induction pool arbitrary: config w)
  case Nil
  show ?case by (rule nothing_spawned) simp
next
  case (Cons wav_file wavs)
  let ?c = "config\<lparr>speaker_wav := Some [wav_file]\<rparr>"
  let ?w = "logging INFO (Processing_input wav_file) w"
  obtain r w1 where s: "generate_shots e a ?c wav_file (py_range (args_shots a)) ?w = (r, w1)"
    by (cases "generate_shots e a ?c wav_file (py_range (args_shots a)) ?w")
  from generate_shots_language [of e a ?c wav_file "py_range (args_shots a)" ?w] s
  have 1: "\<exists>cs. spawned w1 = spawned w @ cs
        \<and> (\<forall>c \<in> set cs. c ! 5 = ''--language_idx'' \<and> c ! 6 = language_idx config)"
    by simp
  show ?case
  proof (cases r)
    case (Inl x)
    with s 1 show ?thesis by (simp add: Let_def)
  next
    case (Inr u)
    from Cons.IH [of ?c w1]
    have 2: "\<exists>cs. spawned (snd (generate_speakers e a ?c wavs w1)) = spawned w1 @ cs
        \<and> (\<forall>c \<in> set cs. c ! 5 = ''--language_idx'' \<and> c ! 6 = language_idx config)"
      by simp
    from spawned_trans [OF 1 2] s Inr show ?thesis by (simp add: Let_def)
  qed
qed

lemma generate_speakers_language_kept:
  "generate_speakers e a config pool w = (Inr config', w') \<Longrightarrow> language_idx config' = language_idx config"
proof (induction pool arbitrary: config w)
  case Nil
  then show ?case by simp
next
  case (Cons wav_file wavs)
  let ?c = "config\<lparr>speaker_wav := Some [wav_file]\<rparr>"
  let ?w = "logging INFO (Processing_input wav_file) w"
  obtain r w1 where s: "generate_shots e a ?c wav_file (py_range (args_shots a)) ?w = (r, w1)"
    by (cases "generate_shots e a ?c wav_file (py_range (args_shots a)) ?w")
  from Cons.prems s obtain u where "r = Inr u" by (cases r) (auto simp add: Let_def)
  with Cons.prems s have "generate_speakers e a ?c wavs w1 = (Inr config', w')"
    by (simp add: Let_def)
  from Cons.IH [OF this] show ?case by simp
qed

lemma generate_merged_language:
  "\<exists>cs. spawned (snd (generate_merged e a pool config is w)) = spawned w @ cs
        \<and> (\<forall>c \<in> set cs. c ! 5 = ''--language_idx'' \<and> c ! 6 = language_idx config)"
proof (induction "is" arbitrary: config w)
  case Nil
  show ?case by (rule nothing_spawned) simp
next
  case (Cons i "is")
  obtain r1 w1 where ri: "randint e (args_min_merge a) (args_max_merge a) w = (r1, w1)"
    by (cases "randint e (args_min_merge a) (args_max_merge a) w")
  have sp1: "spawned w1 = spawned w"
    using ri by (auto simp add: randint_def randbelow_def Let_def split: if_splits)
  show ?case
  proof (cases r1)
    case (Inl x)
    with ri sp1 show ?thesis by (simp add: nothing_spawned)
  next
    case n: (Inr n)
    obtain r2 w2 where sa: "sample e pool (min n (int (length pool))) w1 = (r2, w2)"
      by (cases "sample e pool (min n (int (length pool))) w1")
    have sp2: "spawned w2 = spawned w"
      using sa sp1
      by (auto simp add: sample_def sample_loop_world case_prod_beta Let_def split: if_splits)
    show ?thesis
    proof (cases r2)
      case (Inl x)
      with ri n sa sp2 show ?thesis by (simp add: nothing_spawned)
    next
      case sel: (Inr sel)
      let ?c = "config\<lparr>speaker_wav := Some sel\<rparr>"
      let ?w = "logging INFO (Selected_files (length sel) sel) w2"
      obtain r3 w3 where p: "process_wav_file e ?c (fstr (args_text a)) (args_output_wav_dir a) ?w = (r3, w3)"
        by (cases "process_wav_file e ?c (fstr (args_text a)) (args_output_wav_dir a) ?w")
      from process_wav_file_language [of e ?c "fstr (args_text a)" "args_output_wav_dir a" ?w] p sp2
      have 1: "\<exists>cs. spawned w3 = spawned w @ cs
        \<and> (\<forall>c \<in> set cs. c ! 5 = ''--language_idx'' \<and> c ! 6 = language_idx config)"
        by simp
      show ?thesis
      proof (cases r3)
        case (Inl x)
        with ri n sa sel p 1 show ?thesis by (simp add: Let_def)
      next
        case (Inr result)
        let ?w4 = "logging INFO (Generated_for_merged (i + 1) result) w3"
        from 1 have 2: "\<exists>cs. spawned ?w4 = spawned w @ cs
          \<and> (\<forall>c \<in> set cs. c ! 5 = ''--language_idx'' \<and> c ! 6 = language_idx config)"
          by simp
        from Cons.IH [of ?c ?w4]
        have 3: "\<exists>cs. spawned (snd (generate_merged e a pool ?c is ?w4)) = spawned ?w4 @ cs
          \<and> (\<forall>c \<in> set cs. c ! 5 = ''--language_idx'' \<and> c ! 6 = language_idx config)"
          by simp
        from spawned_trans [OF 2 3] ri n sa sel p Inr show ?thesis by (simp add: Let_def)
      qed
    qed
  qed
qed

lemma generate_mode_language:
  "\<exists>cs. spawned (snd (generate_mode e a pool config w)) = spawned w @ cs
        \<and> (\<forall>c \<in> set cs. c ! 5 = ''--language_idx'' \<and> c ! 6 = language_idx config)"
proof -
  obtain r w1 where s: "generate_speakers e a config pool w = (r, w1)"
    by (cases "generate_speakers e a config pool w")
  from generate_speakers_language [of e a config pool w] s
  have 1: "\<exists>cs. spawned w1 = spawned w @ cs
        \<and> (\<forall>c \<in> set cs. c ! 5 = ''--language_idx'' \<and> c ! 6 = language_idx config)"
    by simp
  show ?thesis
  proof (cases r)
    case (Inl x)
    with s 1 show ?thesis by (simp add: generate_mode_def)
  next
    case (Inr c1)
    from generate_speakers_language_kept [OF s [unfolded Inr]]
    have l: "language_idx c1 = language_idx config" .
    from generate_merged_language [of e a pool c1 "py_range (args_shots a)" w1]
    have 2: "\<exists>cs. spawned (snd (generate_merged e a pool c1 (py_range (args_shots a)) w1))
                 = spawned w1 @ cs
        \<and> (\<forall>c \<in> set cs. c ! 5 = ''--language_idx'' \<and> c ! 6 = language_idx config)"
      by (simp add: l)
    from spawned_trans [OF 1 2] s Inr show ?thesis by (simp add: generate_mode_def)
  qed
qed

lemma spawned_generate_random_text:
  "spawned (snd (generate_random_text e word_file n w)) = spawned w"
  by (auto simp add: generate_random_text_def random_text_body_def sample_def sample_loop_world
      case_prod_beta logging_def Let_def split: option.splits node.splits)

lemma train_shots_language:
  "\<exists>cs. spawned (snd (train_shots e a config wav_file is w)) = spawned w @ cs
        \<and> (\<forall>c \<in> set cs. c ! 5 = ''--language_idx'' \<and> c ! 6 = language_idx config)"
proof (induction "is" arbitrary: w)
  case Nil
  show ?case by (rule nothing_spawned) simp
next
  case (Cons i "is")
  obtain r1 w1 where g: "generate_random_text e (args_dict_file a) (args_word_count a) w = (r1, w1)"
    by (cases "generate_random_text e (args_dict_file a) (args_word_count a) w")
  have sp1: "spawned w1 = spawned w"
    using spawned_generate_random_text [of e "args_dict_file a" "args_word_count a" w] g by simp
  show ?case
  proof (cases r1)
    case (Inl x)
    with g sp1 show ?thesis by (simp add: nothing_spawned)
  next
    case t: (Inr t)
    obtain r2 w2 where p: "process_wav_file e config t (args_output_wav_dir a) w1 = (r2, w2)"
      by (cases "process_wav_file e config t (args_output_wav_dir a) w1")
    from process_wav_file_language [of e config t "args_output_wav_dir a" w1] p sp1
    have 1: "\<exists>cs. spawned w2 = spawned w @ cs
        \<and> (\<forall>c \<in> set cs. c ! 5 = ''--language_idx'' \<and> c ! 6 = language_idx config)"
      by simp
    show ?thesis
    proof (cases r2)
      case (Inl x)
      with g t p 1 show ?thesis by simp
    next
      case (Inr result)
      let ?w3 = "logging INFO (Generated_for_wav wav_file (i + 1) result) w2"
      from 1 have 2: "\<exists>cs. spawned ?w3 = spawned w @ cs
        \<and> (\<forall>c \<in> set cs. c ! 5 = ''--language_idx'' \<and> c ! 6 = language_idx config)"
        by simp
      from spawned_trans [OF 2 Cons.IH [of ?w3]] g t p Inr show ?thesis by simp
    qed
  qed
qed

lemma train_mode_language:
  "\<exists>cs. spawned (snd (train_mode e a pool config w)) = spawned w @ cs
        \<and> (\<forall>c \<in> set cs. c ! 5 = ''--language_idx'' \<and> c ! 6 = language_idx config)"
proof (induction pool arbitrary: config w)
  case Nil
  show ?case by (rule nothing_spawned) simp
next
  case (Cons wav_file wavs)
  let ?c = "config\<lparr>speaker_wav := Some [wav_file]\<rparr>"
  obtain r w1 where s: "train_shots e a ?c wav_file (py_range (args_shots a)) w = (r, w1)"
    by (cases "train_shots e a ?c wav_file (py_range (args_shots a)) w")
  from train_shots_language [of e a ?c wav_file "py_range (args_shots a)" w] s
  have 1: "\<exists>cs. spawned w1 = spawned w @ cs
        \<and> (\<forall>c \<in> set cs. c ! 5 = ''--language_idx'' \<and> c ! 6 = language_idx config)"
    by simp
  show ?case
  proof (cases r)
    case (Inl x)
    with s 1 show ?thesis by (simp add: Let_def)
  next
    case (Inr u)
    from Cons.IH [of ?c w1]
    have 2: "\<exists>cs. spawned (snd (train_mode e a wavs ?c w1)) = spawned w1 @ cs
        \<and> (\<forall>c \<in> set cs. c ! 5 = ''--language_idx'' \<and> c ! 6 = language_idx config)"
      by simp
    from spawned_trans [OF 1 2] s Inr show ?thesis by (simp add: Let_def)
  qed
qed

lemma spawned_get_speaker_wav:
  "spawned (snd (get_speaker_wav e d w)) = spawned w"
proof -
  have "spawned (snd (shuffle_from e k x w)) = spawned w" for k and x :: "string list" and w
    by (induction k arbitrary: x w) (simp_all add: randbelow_def Let_def)
  then show ?thesis
    by (simp add: get_speaker_wav_def shuffle_def Let_def case_prod_beta)
qed

lemma main_cases:
  "snd (main e a w) = logging ERROR Tts_not_found w
   \<or> snd (main e a w) = snd (get_speaker_wav e (args_input_wav_dir a) (logging INFO Which_tts_flags w))
   \<or> snd (main e a w) =
        snd (generate_mode e a
               (fst (get_speaker_wav e (args_input_wav_dir a) (logging INFO Which_tts_flags w)))
               (make_config a)
               (snd (get_speaker_wav e (args_input_wav_dir a) (logging INFO Which_tts_flags w))))
   \<or> snd (main e a w) =
        snd (train_mode e a
               (fst (get_speaker_wav e (args_input_wav_dir a) (logging INFO Which_tts_flags w)))
               (make_config a)
               (snd (get_speaker_wav e (args_input_wav_dir a) (logging INFO Which_tts_flags w))))"
  by (simp add: main_def check_tts_command_exists_def Let_def case_prod_beta
      split: run_mode.split sum.split)

text \<open>
  Claim C9. The configuration \<^verbatim>\<open>main\<close> builds has the language code \<^verbatim>\<open>en\<close> whatever the
  options are: no field of the parsed options reaches it. The drivers only ever replace
  the speaker list, so every process launched by a run, in either mode and whether the
  run ends normally or with an error, has \<^verbatim>\<open>--language_idx\<close> as its argument 5 and \<^verbatim>\<open>en\<close>
  as its argument 6.
\<close>

theorem main_language_en:
  "language_idx (make_config a) = ''en''
   \<and> (\<exists>cs. spawned (snd (main e a w)) = spawned w @ cs
          \<and> (\<forall>c \<in> set cs. c ! 5 = ''--language_idx'' \<and> c ! 6 = ''en''))"
proof -
  let ?w0 = "logging INFO Which_tts_flags w"
  let ?g = "get_speaker_wav e (args_input_wav_dir a) ?w0"
  have l: "language_idx (make_config a) = ''en''" by (simp add: make_config_def)
  have g: "spawned (snd ?g) = spawned w" by (simp add: spawned_get_speaker_wav)
  from generate_mode_language [of e a "fst ?g" "make_config a" "snd ?g"]
  have gm: "\<exists>cs. spawned (snd (generate_mode e a (fst ?g) (make_config a) (snd ?g))) = spawned w @ cs
          \<and> (\<forall>c \<in> set cs. c ! 5 = ''--language_idx'' \<and> c ! 6 = ''en'')"
    by (simp add: l g)
  from train_mode_language [of e a "fst ?g" "make_config a" "snd ?g"]
  have tm: "\<exists>cs. spawned (snd (train_mode e a (fst ?g) (make_config a) (snd ?g))) = spawned w @ cs
          \<and> (\<forall>c \<in> set cs. c ! 5 = ''--language_idx'' \<and> c ! 6 = ''en'')"
    by (simp add: l g)
  have "\<exists>cs. spawned (snd (main e a w)) = spawned w @ cs
          \<and> (\<forall>c \<in> set cs. c ! 5 = ''--language_idx'' \<and> c ! 6 = ''en'')"
    using main_cases [of e a w]
  proof (elim disjE)
    assume "snd (main e a w) = logging ERROR Tts_not_found w"
    then show ?thesis by (simp add: nothing_spawned)
  next
    assume "snd (main e a w) = snd ?g"
    then show ?thesis by (simp add: g nothing_spawned)
  next
    assume "snd (main e a w) = snd (generate_mode e a (fst ?g) (make_config a) (snd ?g))"
    with gm show ?thesis by simp
  next
    assume "snd (main e a w) = snd (train_mode e a (fst ?g) (make_config a) (snd ?g))"
    with tm show ?thesis by simp
  qed
  with l show ?thesis by (rule conjI)
qed

lemma main_generate:
  assumes "which_tts e" and "args_mode a = Generate" and "truthy (args_text a)"
    and "fst (get_speaker_wav e (args_input_wav_dir a) (logging INFO Which_tts_flags w)) \<noteq> []"
  shows "snd (main e a w) =
        snd (generate_mode e a
               (fst (get_speaker_wav e (args_input_wav_dir a) (logging INFO Which_tts_flags w)))
               (make_config a)
               (snd (get_speaker_wav e (args_input_wav_dir a) (logging INFO Which_tts_flags w))))"
  using assms
  by (simp add: main_def check_tts_command_exists_def Let_def case_prod_beta split: sum.split)

theorem main_language_en_witness:
  "\<exists>cs. spawned (snd (main env0 args0 world0)) = cs \<and> cs \<noteq> []
        \<and> (\<forall>c \<in> set cs. c ! 5 = ''--language_idx'' \<and> c ! 6 = ''en'')"
proof -
  let ?w0 = "logging INFO Which_tts_flags world0"
  let ?g = "get_speaker_wav env0 (args_input_wav_dir args0) ?w0"
  from main_language_en [of args0 env0 world0] obtain cs where
    s: "spawned (snd (main env0 args0 world0)) = spawned world0 @ cs"
    and q: "\<forall>c \<in> set cs. c ! 5 = ''--language_idx'' \<and> c ! 6 = ''en''"
    by blast
  have "mset (fst ?g) = mset (glob env0 (path_join (args_input_wav_dir args0) ''*.wav''))"
    unfolding get_speaker_wav_fst by (rule mset_shuffle)
  then have "length (fst ?g) = length (glob env0 (path_join (args_input_wav_dir args0) ''*.wav''))"
    by (rule mset_eq_length)
  then have pool: "fst ?g \<noteq> []" by (auto simp add: env0_def)
  have m: "snd (main env0 args0 world0) = snd (generate_mode env0 args0 (fst ?g) (make_config args0) (snd ?g))"
    by (rule main_generate [OF _ _ _ pool]) (simp_all add: env0_def args0_def)
  have "\<exists>c' w'. generate_mode env0 args0 (fst ?g) (make_config args0) (snd ?g) = (Inr c', w')"
    by (rule generate_mode_completes) (simp_all add: env0_def args0_def)
  then obtain c' w' where
    g: "generate_mode env0 args0 (fst ?g) (make_config args0) (snd ?g) = (Inr c', w')"
    by blast
  from generate_mode_spawned [OF g] obtain sels where
    "length sels = nat (args_shots args0)"
    and "spawned w' = spawned (snd ?g) @
          concat (map (\<lambda>wav_file. replicate (nat (args_shots args0))
                         (build_command ((make_config args0)\<lparr>speaker_wav := Some [wav_file]\<rparr>)
                            (fstr (args_text args0))))
                    (fst ?g)) @
          map (\<lambda>sel. build_command ((make_config args0)\<lparr>speaker_wav := Some sel\<rparr>)
                 (fstr (args_text args0))) sels"
    by blast
  then have "spawned w' \<noteq> []" by (auto simp add: args0_def)
  with m g have ne: "spawned (snd (main env0 args0 world0)) \<noteq> []" by simp
  have "spawned world0 = []" by (simp add: world0_def)
  with s ne q show ?thesis by simp
qed

end
